theory Spec2Isabelle
  imports Main "HOL-Library.Word"
begin

section \<open>The tinc provider of virtual-kubelet\<close>

text \<open>
  A shallow embedding of \<^verbatim>\<open>providers/tinc\<close> (the first file of
  \<^verbatim>\<open>src/unnamed/part_000\<close>, lines 1 to 529). Go strings are byte sequences and are
  modelled as \<open>string\<close>; the pod store \<^verbatim>\<open>map[string]*v1.Pod\<close> is a map from keys
  to pods; the package-level variables are a record that is passed along; the calls
  to the operating system and to the container runtime are recorded in a trace, and
  their outcomes are read from a record of result functions. Log output
  (\<^verbatim>\<open>log.Printf\<close>, \<^verbatim>\<open>fmt.Printf\<close>) is not modelled.
\<close>

subsection \<open>Constants\<close>

definition tincAutoConnect :: string where
  "tincAutoConnect = ''yes''"

definition tincModeSwitch :: string where
  "tincModeSwitch = ''switch''"

definition tincDeviceTunTap :: string where
  "tincDeviceTunTap = ''/dev/net/tun''"

definition tincDeviceTypeTap :: string where
  "tincDeviceTypeTap = ''tap''"

definition tincImageName :: string where
  "tincImageName = ''quay.io/dongsupark/tinc''"

definition dockerClient :: string where
  "dockerClient = ''/usr/bin/docker''"

definition defaultCPUCapacity :: string where
  "defaultCPUCapacity = ''20''"

definition defaultMemoryCapacity :: string where
  "defaultMemoryCapacity = ''100Gi''"

definition defaultPodCapacity :: string where
  "defaultPodCapacity = ''20''"

definition DefaultTincMainName :: string where
  "DefaultTincMainName = ''nodemain''"

definition DefaultTincRemotePeers :: string where
  "DefaultTincRemotePeers = ''nodepeer''"

definition DefaultTincMainAddress :: string where
  "DefaultTincMainAddress = ''172.17.0.2''"

definition DefaultTincPeerAddress :: string where
  "DefaultTincPeerAddress = ''172.17.0.3''"

definition DefaultTincMainPrivateAddress :: string where
  "DefaultTincMainPrivateAddress = ''10.1.1.1''"

definition DefaultTincPeerPrivateAddress :: string where
  "DefaultTincPeerPrivateAddress = ''10.1.1.2''"

definition tincStartupConfigContainer :: string where
  "tincStartupConfigContainer = ''/environment/default.startup.conf''"

definition tincMainConfigContainer :: string where
  "tincMainConfigContainer = ''/service/tinc/data/tinc.conf''"

definition tincUpScriptContainer :: string where
  "tincUpScriptContainer = ''/service/tinc/data/tinc-up''"

subsection \<open>Data\<close>

text \<open>
  \<^verbatim>\<open>TincConfig\<close>. The struct declaration lists the first nine fields.
  \<^verbatim>\<open>createStartupConfig\<close> also reads \<^verbatim>\<open>p.config.ExperimentalProtocol\<close>, which the
  declaration does not list; it is carried as a tenth field that \<^verbatim>\<open>loadConfig\<close>
  never assigns.
\<close>

record TincConfig =
  AutoConnect :: string
  ConnectTo :: string
  Device :: string
  DeviceType :: string
  Mode :: string
  Name :: string
  CPU :: string
  Memory :: string
  Pods :: string
  ExperimentalProtocol :: string

text \<open>
  The part of \<^verbatim>\<open>v1.Pod\<close> that the provider reads: \<^verbatim>\<open>ObjectMeta.Namespace\<close>,
  \<^verbatim>\<open>ObjectMeta.Name\<close> (here \<open>PodName\<close>), \<^verbatim>\<open>Annotations\<close>, and the name and image
  of each container of \<^verbatim>\<open>Spec.Containers\<close>.
\<close>

record Pod =
  Namespace :: string
  PodName :: string
  Annotations :: "string \<rightharpoonup> string"
  Containers :: "(string \<times> string) list"

record TincProvider =
  nodeName :: string
  pods :: "string \<rightharpoonup> Pod"
  tincAddress :: string
  tincSubnet :: string
  tincPort :: "32 word"
  config :: TincConfig

text \<open>The package-level variables that the provider assigns or reads.\<close>

record globals =
  myAddress :: string
  peerAddress :: string
  privateAddress :: string
  tincMainName :: string
  tincPeerName :: string
  tincStartupConfigHost :: string
  tincMainConfigHost :: string
  tincUpScriptHost :: string

definition initialGlobals :: globals where
  "initialGlobals =
     \<lparr>myAddress = DefaultTincMainAddress,
      peerAddress = DefaultTincPeerAddress,
      privateAddress = DefaultTincMainPrivateAddress,
      tincMainName = DefaultTincMainName,
      tincPeerName = DefaultTincRemotePeers,
      tincStartupConfigHost = [],
      tincMainConfigHost = [],
      tincUpScriptHost = []\<rparr>"

text \<open>
  Errors: \<^verbatim>\<open>fmt.Errorf\<close> with its message, \<^verbatim>\<open>strongerrors.NotFound\<close> with the
  message of the error it wraps, and an error handed back by the operating system,
  the JSON decoder or the container runtime.
\<close>

datatype error = Errorf string | NotFound string | SysError string

fun errorString :: "error \<Rightarrow> string" where
  "errorString (Errorf m) = m"
| "errorString (NotFound m) = m"
| "errorString (SysError m) = m"

text \<open>
  The calls that leave the process, with their arguments: \<^verbatim>\<open>os.MkdirAll\<close> and
  \<^verbatim>\<open>ioutil.WriteFile\<close> (path, data, permission bits) and \<^verbatim>\<open>exec.Command\<close> (the
  argument vector, program first).
\<close>

datatype call = MkdirAll string nat | WriteFile string string nat | Exec "string list"

text \<open>
  The outcome of each such call: the error of \<^verbatim>\<open>MkdirAll\<close> and of \<^verbatim>\<open>WriteFile\<close>
  for a path, and the output and error of a command.
\<close>

record outside =
  MkdirAll_err :: "string \<Rightarrow> error option"
  WriteFile_err :: "string \<Rightarrow> error option"
  Command_result :: "string list \<Rightarrow> string \<times> error option"

record system =
  prov :: TincProvider
  vars :: globals
  calls :: "call list"

subsection \<open>Keys\<close>

text \<open>\<^verbatim>\<open>fmt.Sprintf("%s-%s", namespace, name)\<close>, with a nil error.\<close>

definition buildKeyFromNames :: "string \<Rightarrow> string \<Rightarrow> error + string" where
  "buildKeyFromNames namespace name = Inr (namespace @ ''-'' @ name)"

definition buildKey :: "Pod \<Rightarrow> error + string" where
  "buildKey pod =
     (if Namespace pod = [] then Inl (Errorf ''pod namespace not found'')
      else if PodName pod = [] then Inl (Errorf ''pod name not found'')
      else buildKeyFromNames (Namespace pod) (PodName pod))"

text \<open>
  The two errors of \<^verbatim>\<open>buildKey\<close>; the code has no error type for them, the
  specification calls them \<open>InvalidKey\<close>.
\<close>

definition InvalidKey :: "error \<Rightarrow> bool" where
  "InvalidKey e =
     (e = Errorf ''pod namespace not found'' \<or> e = Errorf ''pod name not found'')"

subsection \<open>Library functions\<close>

text \<open>
  \<^verbatim>\<open>strings.Fields\<close> on ASCII text: the fields are the maximal runs of bytes that
  are not white space (tab, line feed, vertical tab, form feed, carriage return,
  space). The provider applies it to the constant \<^verbatim>\<open>DefaultTincRemotePeers\<close> only.
\<close>

definition asciiSpace :: "char \<Rightarrow> bool" where
  "asciiSpace c =
     (c = CHR 0x09 \<or> c = CHR 0x0A \<or> c = CHR 0x0B \<or> c = CHR 0x0C \<or> c = CHR 0x0D \<or> c = CHR 0x20)"

fun Fields_from :: "string \<Rightarrow> string \<Rightarrow> string list" where
  "Fields_from cur [] = (if cur = [] then [] else [cur])"
| "Fields_from cur (c # cs) =
     (if asciiSpace c then (if cur = [] then Fields_from [] cs else cur # Fields_from [] cs)
      else Fields_from (cur @ [c]) cs)"

definition Fields :: "string \<Rightarrow> string list" where
  "Fields s = Fields_from [] s"

text \<open>The verb \<^verbatim>\<open>%d\<close> of \<^verbatim>\<open>fmt.Sprintf\<close> on an \<^verbatim>\<open>int32\<close>: signed decimal.\<close>

fun decimal :: "nat \<Rightarrow> string" where
  "decimal n =
     (if n < 10 then [''0123456789'' ! n]
      else decimal (n div 10) @ [''0123456789'' ! (n mod 10)])"

declare decimal.simps [simp del]

definition Sprintf_d :: "32 word \<Rightarrow> string" where
  "Sprintf_d w = (if sint w < 0 then CHR ''-'' # decimal (nat (- sint w)) else decimal (nat (sint w)))"

text \<open>
  \<^verbatim>\<open>filepath.Join\<close>: the non-empty elements, separated by a slash. The cleaning
  of the result (\<^verbatim>\<open>filepath.Clean\<close>) is left out: the provider joins \<^verbatim>\<open>/tmp\<close>, one
  of the two node names and a fixed file name, which are clean already.
\<close>

fun join_slash :: "string list \<Rightarrow> string" where
  "join_slash [] = []"
| "join_slash [e] = e"
| "join_slash (e # f # es) = e @ ''/'' @ join_slash (f # es)"

definition filepath_Join :: "string list \<Rightarrow> string" where
  "filepath_Join elem = join_slash (filter (\<lambda>e. e \<noteq> []) elem)"

text \<open>
  \<^verbatim>\<open>resource.ParseQuantity\<close> belongs to the Kubernetes library, not to this
  repository; \<^verbatim>\<open>loadConfig\<close> only asks whether it returns an error, so it takes
  that test as an argument. \<open>quantity_ok\<close> is the test used at concrete inputs. It
  follows the grammar in the documentation of the library (a signed number with an
  optional fraction, followed by a binary suffix, a decimal suffix or a decimal
  exponent) and is not the parser of the library: the two agree on the inputs used
  below (the empty string, which the library rejects at once, \<open>20\<close> and \<open>100Gi\<close>),
  and differ elsewhere (the library also accepts the suffixes \<open>n\<close> and \<open>u\<close> and
  numbers without digits, and rejects fractional or very long exponents).
\<close>

definition isDigit :: "char \<Rightarrow> bool" where
  "isDigit c = (c \<in> set ''0123456789'')"

definition quantity_number :: "string \<Rightarrow> bool" where
  "quantity_number s =
     (let a = takeWhile isDigit s in
      case dropWhile isDigit s of
        [] \<Rightarrow> a \<noteq> []
      | c # f \<Rightarrow> c = CHR ''.'' \<and> list_all isDigit f \<and> (a \<noteq> [] \<or> f \<noteq> []))"

definition quantity_signed :: "string \<Rightarrow> bool" where
  "quantity_signed s =
     (case s of
        [] \<Rightarrow> False
      | c # r \<Rightarrow> if c = CHR ''+'' \<or> c = CHR ''-'' then quantity_number r else quantity_number s)"

definition quantity_suffix :: "string \<Rightarrow> bool" where
  "quantity_suffix suf =
     (suf \<in> set [''Ki'', ''Mi'', ''Gi'', ''Ti'', ''Pi'', ''Ei'']
      \<or> suf \<in> set [''m'', [], ''k'', ''M'', ''G'', ''T'', ''P'', ''E'']
      \<or> (case suf of [] \<Rightarrow> False
          | c # r \<Rightarrow> (c = CHR ''e'' \<or> c = CHR ''E'') \<and> quantity_signed r))"

definition quantity_ok :: "string \<Rightarrow> bool" where
  "quantity_ok str =
     (if str = [] then False
      else
        (let body = (case str of c # r \<Rightarrow> if c = CHR ''+'' \<or> c = CHR ''-'' then r else str | [] \<Rightarrow> str);
             isNum = (\<lambda>c. isDigit c \<or> c = CHR ''.'')
         in quantity_number (takeWhile isNum body) \<and> quantity_suffix (dropWhile isNum body)))"

subsection \<open>Configuration\<close>

definition zeroConfig :: TincConfig where
  "zeroConfig =
     \<lparr>AutoConnect = [], ConnectTo = [], Device = [], DeviceType = [], Mode = [],
      Name = [], CPU = [], Memory = [], Pods = [], ExperimentalProtocol = []\<rparr>"

text \<open>
  \<^verbatim>\<open>loadConfig\<close> returns the configuration together with the error, as the Go
  function does. \<open>readFile\<close> and \<open>unmarshal\<close> stand for \<^verbatim>\<open>ioutil.ReadFile\<close> and for
  \<^verbatim>\<open>json.Unmarshal\<close> into a \<^verbatim>\<open>map[string]TincConfig\<close>. The default of the field
  \<^verbatim>\<open>Name\<close> is read from the package variable \<^verbatim>\<open>tincMainName\<close>.
\<close>

definition loadConfig ::
  "(string \<Rightarrow> error + string) \<Rightarrow> (string \<Rightarrow> error + (string \<rightharpoonup> TincConfig)) \<Rightarrow> (string \<Rightarrow> bool) \<Rightarrow>
   globals \<Rightarrow> string \<Rightarrow> string \<Rightarrow> TincConfig \<times> error option" where
  "loadConfig readFile unmarshal parseQuantity g providerConfig nodeName' =
     (let config = zeroConfig in
      case readFile providerConfig of
        Inl err \<Rightarrow> (config, Some err)
      | Inr data \<Rightarrow>
          (case unmarshal data of
             Inl err \<Rightarrow> (config, Some err)
           | Inr configMap \<Rightarrow>
               (let config =
                  (case configMap nodeName' of
                     None \<Rightarrow> config
                   | Some entry \<Rightarrow>
                       (let config = entry;
                            config = (if AutoConnect config = [] then config\<lparr>AutoConnect := tincAutoConnect\<rparr> else config);
                            config = (if ConnectTo config = [] then config\<lparr>ConnectTo := DefaultTincRemotePeers\<rparr> else config);
                            config = (if Device config = [] then config\<lparr>Device := tincDeviceTunTap\<rparr> else config);
                            config = (if DeviceType config = [] then config\<lparr>DeviceType := tincDeviceTypeTap\<rparr> else config);
                            config = (if Mode config = [] then config\<lparr>Mode := tincModeSwitch\<rparr> else config);
                            config = (if Name config = [] then config\<lparr>Name := tincMainName g\<rparr> else config);
                            config = (if CPU config = [] then config\<lparr>CPU := defaultCPUCapacity\<rparr> else config);
                            config = (if Memory config = [] then config\<lparr>Memory := defaultMemoryCapacity\<rparr> else config);
                            config = (if Pods config = [] then config\<lparr>Pods := defaultPodCapacity\<rparr> else config)
                        in config))
                in if \<not> parseQuantity (CPU config)
                   then (config, Some (Errorf (''Invalid CPU value '' @ CPU config)))
                   else if \<not> parseQuantity (Memory config)
                   then (config, Some (Errorf (''Invalid memory value '' @ Memory config)))
                   else if \<not> parseQuantity (Pods config)
                   then (config, Some (Errorf (''Invalid pods value '' @ Pods config)))
                   else (config, None))))"

definition NewTincProvider ::
  "(string \<Rightarrow> error + string) \<Rightarrow> (string \<Rightarrow> error + (string \<rightharpoonup> TincConfig)) \<Rightarrow> (string \<Rightarrow> bool) \<Rightarrow>
   globals \<Rightarrow> string \<Rightarrow> string \<Rightarrow> string \<Rightarrow> string \<Rightarrow> 32 word \<Rightarrow> error + TincProvider" where
  "NewTincProvider readFile unmarshal parseQuantity g providerConfig nodeName' tincAddress' tincSubnet' tincPort' =
     (case loadConfig readFile unmarshal parseQuantity g providerConfig nodeName' of
        (config', Some err) \<Rightarrow> Inl err
      | (config', None) \<Rightarrow>
          Inr \<lparr>nodeName = nodeName', pods = Map.empty, tincAddress = tincAddress',
               tincSubnet = tincSubnet', tincPort = tincPort', config = config'\<rparr>)"

subsection \<open>The generated files\<close>

text \<open>
  The three texts that \<^verbatim>\<open>createStartupConfig\<close> builds: \<^verbatim>\<open>data\<close> for
  \<^verbatim>\<open>vk-startup-config.conf\<close>, \<^verbatim>\<open>dataMain\<close> for \<^verbatim>\<open>vk-main.conf\<close> and \<^verbatim>\<open>dataScr\<close>
  for \<^verbatim>\<open>vk-tinc-up\<close>.
\<close>

definition startupData :: "TincProvider \<Rightarrow> globals \<Rightarrow> string" where
  "startupData p g =
     (let data = ''add AutoConnect = '' @ AutoConnect (config p) @ ''\<newline>'';
          data = data @ ''add ConnectTo = '' @ tincPeerName g @ ''\<newline>'';
          data = data @ ''add Device = '' @ Device (config p) @ ''\<newline>'';
          data = data @ ''add DeviceType = '' @ DeviceType (config p) @ ''\<newline>'';
          data = data @ ''add Mode = '' @ Mode (config p) @ ''\<newline>'';
          data = data @ ''add Name = '' @ tincMainName g @ ''\<newline>'';
          nodeMain = Name (config p);
          data = data @ ''add '' @ nodeMain @ ''.Address = '' @ myAddress g @ ''\<newline>'';
          data = data @ ''add '' @ nodeMain @ ''.Subnet = '' @ tincSubnet p @ ''\<newline>'';
          data = data @ ''add '' @ nodeMain @ ''.Port = '' @ Sprintf_d (tincPort p) @ ''\<newline>'';
          nodePeers = Fields DefaultTincRemotePeers
      in foldl (\<lambda>data nodePeer.
                  (let data = data @ ''add '' @ nodePeer @ ''.Address = '' @ peerAddress g @ ''\<newline>'';
                       data = data @ ''add '' @ nodePeer @ ''.Subnet = '' @ tincSubnet p @ ''\<newline>'';
                       data = data @ ''add '' @ nodePeer @ ''.Port = '' @ Sprintf_d (tincPort p) @ ''\<newline>''
                   in data))
           data nodePeers)"

definition mainData :: "TincProvider \<Rightarrow> globals \<Rightarrow> string" where
  "mainData p g =
     (let dataMain = ''AutoConnect = '' @ AutoConnect (config p) @ ''\<newline>'';
          dataMain = dataMain @ ''ConnectTo = '' @ tincPeerName g @ ''\<newline>'';
          dataMain = dataMain @ ''Device = '' @ Device (config p) @ ''\<newline>'';
          dataMain = dataMain @ ''DeviceType = '' @ DeviceType (config p) @ ''\<newline>'';
          dataMain = dataMain @ ''ExperimentalProtocol = '' @ ExperimentalProtocol (config p) @ ''\<newline>'';
          dataMain = dataMain @ ''Mode = '' @ Mode (config p) @ ''\<newline>'';
          dataMain = dataMain @ ''Name = '' @ tincMainName g @ ''\<newline>''
      in dataMain)"

definition upScriptData :: "globals \<Rightarrow> string" where
  "upScriptData g =
     (let dataScr = ''#!/bin/bash\<newline>'';
          dataScr = dataScr @ ''ip link set tap0 up\<newline>'';
          dataScr = dataScr @ ''ip addr add '' @ privateAddress g @ ''/24 dev tap0\<newline>''
      in dataScr)"

text \<open>
  \<^verbatim>\<open>createStartupConfig\<close>: the directory is made, then the three files are
  written (modes 0775, 0644, 0644, 0755); the first failing call ends the function
  with its error.
\<close>

definition createStartupConfig :: "outside \<Rightarrow> system \<Rightarrow> error option \<times> system" where
  "createStartupConfig os s =
     (let p = prov s; g = vars s;
          dir = filepath_Join [''/tmp'', tincMainName g];
          s1 = s\<lparr>calls := calls s @ [MkdirAll dir 509]\<rparr>
      in case MkdirAll_err os dir of
           Some err \<Rightarrow> (Some err, s1)
         | None \<Rightarrow>
             (let s2 = s1\<lparr>calls := calls s1 @ [WriteFile (tincStartupConfigHost g) (startupData p g) 420]\<rparr>
              in case WriteFile_err os (tincStartupConfigHost g) of
                   Some err \<Rightarrow> (Some err, s2)
                 | None \<Rightarrow>
                     (let s3 = s2\<lparr>calls := calls s2 @ [WriteFile (tincMainConfigHost g) (mainData p g) 420]\<rparr>
                      in case WriteFile_err os (tincMainConfigHost g) of
                           Some err \<Rightarrow> (Some err, s3)
                         | None \<Rightarrow>
                             (let s4 = s3\<lparr>calls := calls s3 @ [WriteFile (tincUpScriptHost g) (upScriptData g) 493]\<rparr>
                              in case WriteFile_err os (tincUpScriptHost g) of
                                   Some err \<Rightarrow> (Some err, s4)
                                 | None \<Rightarrow> (None, s4)))))"

subsection \<open>The pod operations\<close>

text \<open>
  The mesh identity that \<^verbatim>\<open>CreatePod\<close> assigns to the package variables from the
  annotation \<^verbatim>\<open>vpnmode\<close> of the pod (a missing annotation reads as the empty
  string), followed by the three host paths.
\<close>

definition setMeshIdentity :: "Pod \<Rightarrow> globals \<Rightarrow> globals" where
  "setMeshIdentity pod g =
     (let vpnMode = (case Annotations pod ''vpnmode'' of None \<Rightarrow> [] | Some v \<Rightarrow> v);
          g = (if vpnMode = ''peer''
               then g\<lparr>privateAddress := DefaultTincPeerPrivateAddress,
                      tincMainName := DefaultTincRemotePeers,
                      tincPeerName := DefaultTincMainName\<rparr>
               else g\<lparr>privateAddress := DefaultTincMainPrivateAddress,
                      tincMainName := DefaultTincMainName,
                      tincPeerName := DefaultTincRemotePeers\<rparr>)
      in g\<lparr>tincStartupConfigHost := filepath_Join [''/tmp'', tincMainName g, ''vk-startup-config.conf''],
            tincMainConfigHost := filepath_Join [''/tmp'', tincMainName g, ''vk-main.conf''],
            tincUpScriptHost := filepath_Join [''/tmp'', tincMainName g, ''vk-tinc-up'']\<rparr>)"

definition dockerRunArgs :: "globals \<Rightarrow> string list" where
  "dockerRunArgs g =
     [dockerClient, ''run'', ''--privileged'', ''--name='' @ tincMainName g, ''--detach'', ''--rm'',
      ''--volume='' @ tincStartupConfigHost g @ '':'' @ tincStartupConfigContainer,
      ''--volume='' @ tincMainConfigHost g @ '':'' @ tincMainConfigContainer,
      ''--volume='' @ tincUpScriptHost g @ '':'' @ tincUpScriptContainer,
      tincImageName]"

text \<open>
  \<^verbatim>\<open>CreatePod\<close>: the pod is stored, the mesh identity is assigned, the files are
  written, the old container is removed (the result of that command is dropped)
  and the new one is started.
\<close>

definition CreatePod :: "outside \<Rightarrow> Pod \<Rightarrow> system \<Rightarrow> error option \<times> system" where
  "CreatePod os pod s =
     (case buildKey pod of
        Inl err \<Rightarrow> (Some err, s)
      | Inr key \<Rightarrow>
          (let s = s\<lparr>prov := (prov s)\<lparr>pods := (pods (prov s))(key \<mapsto> pod)\<rparr>\<rparr>;
               s = s\<lparr>vars := setMeshIdentity pod (vars s)\<rparr>
           in case createStartupConfig os s of
                (Some err, s) \<Rightarrow> (Some err, s)
              | (None, s) \<Rightarrow>
                  (let g = vars s;
                       s = s\<lparr>calls := calls s @ [Exec [dockerClient, ''rm'', ''--force'', tincMainName g]]\<rparr>;
                       s = s\<lparr>calls := calls s @ [Exec (dockerRunArgs g)]\<rparr>
                   in case Command_result os (dockerRunArgs g) of
                        (out, Some err) \<Rightarrow>
                          (Some (Errorf (''failed to run docker-run:\<newline>out: '' @ out
                                          @ ''\<newline>err: '' @ errorString err @ ''\<newline>'')), s)
                      | (out, None) \<Rightarrow> (None, s))))"

definition UpdatePod :: "Pod \<Rightarrow> system \<Rightarrow> error option \<times> system" where
  "UpdatePod pod s =
     (case buildKey pod of
        Inl err \<Rightarrow> (Some err, s)
      | Inr key \<Rightarrow> (None, s\<lparr>prov := (prov s)\<lparr>pods := (pods (prov s))(key \<mapsto> pod)\<rparr>\<rparr>))"

definition DeletePod :: "outside \<Rightarrow> Pod \<Rightarrow> system \<Rightarrow> error option \<times> system" where
  "DeletePod os pod s =
     (case buildKey pod of
        Inl err \<Rightarrow> (Some err, s)
      | Inr key \<Rightarrow>
          (case pods (prov s) key of
             None \<Rightarrow> (Some (NotFound ''pod not found''), s)
           | Some stored \<Rightarrow>
               (let s = s\<lparr>prov := (prov s)\<lparr>pods := (pods (prov s))(key := None)\<rparr>\<rparr>;
                    args = [dockerClient, ''rm'', ''--force'', Name (config (prov s))];
                    s = s\<lparr>calls := calls s @ [Exec args]\<rparr>
                in case Command_result os args of
                     (out, Some err) \<Rightarrow>
                       (Some (Errorf (''failed to run docker-rm:\<newline>out: '' @ out
                                       @ ''\<newline>err: '' @ errorString err @ ''\<newline>'')), s)
                   | (out, None) \<Rightarrow> (None, s))))"

definition GetPod :: "TincProvider \<Rightarrow> string \<Rightarrow> string \<Rightarrow> error + Pod" where
  "GetPod p namespace name =
     (case buildKeyFromNames namespace name of
        Inl err \<Rightarrow> Inl err
      | Inr key \<Rightarrow>
          (case pods p key of
             Some pod \<Rightarrow> Inr pod
           | None \<Rightarrow>
               Inl (NotFound (''pod '' @ [CHR 0x22] @ namespace @ ''/'' @ name @ [CHR 0x22]
                              @ '' is not known to the provider''))))"

subsection \<open>The layouts that the specification describes\<close>

text \<open>
  The definitions of this subsection follow the words of the specification, not
  the code; the theorems compare them with the texts that the code builds.
  A text is a sequence of lines, each ended by a line feed.
\<close>

definition textOf :: "string list \<Rightarrow> string" where
  "textOf ls = concat (map (\<lambda>l. l @ ''\<newline>'') ls)"

fun linesOf_from :: "string \<Rightarrow> string \<Rightarrow> string list" where
  "linesOf_from cur [] = (if cur = [] then [] else [cur])"
| "linesOf_from cur (c # cs) =
     (if c = CHR 0x0A then cur # linesOf_from [] cs else linesOf_from (cur @ [c]) cs)"

definition linesOf :: "string \<Rightarrow> string list" where
  "linesOf s = linesOf_from [] s"

text \<open>
  The six scalar settings as key-value assignments. \<open>AutoConnect\<close>, \<open>Device\<close>,
  \<open>DeviceType\<close> and \<open>Mode\<close> carry the values of the configuration; \<open>ConnectTo\<close> and
  \<open>Name\<close> carry the peer name and the node name of the mesh identity.
\<close>

definition scalarSettings :: "TincProvider \<Rightarrow> globals \<Rightarrow> string list" where
  "scalarSettings p g =
     [''AutoConnect = '' @ AutoConnect (config p),
      ''ConnectTo = '' @ tincPeerName g,
      ''Device = '' @ Device (config p),
      ''DeviceType = '' @ DeviceType (config p),
      ''Mode = '' @ Mode (config p),
      ''Name = '' @ tincMainName g]"

definition addLine :: "string \<Rightarrow> string" where
  "addLine l = ''add '' @ l"

text \<open>The three lines that bind the address, the subnet and the port of a node.\<close>

definition bindingLines :: "TincProvider \<Rightarrow> string \<Rightarrow> string \<Rightarrow> string list" where
  "bindingLines p node address =
     [node @ ''.Address = '' @ address,
      node @ ''.Subnet = '' @ tincSubnet p,
      node @ ''.Port = '' @ Sprintf_d (tincPort p)]"

text \<open>
  The startup directives for a peer list: the scalar settings, the bindings of the
  local node, then the bindings of every peer in the order of the list.
\<close>

definition startupLayout :: "TincProvider \<Rightarrow> globals \<Rightarrow> string list \<Rightarrow> string" where
  "startupLayout p g peerList =
     textOf (map addLine
       (scalarSettings p g
        @ bindingLines p (Name (config p)) (myAddress g)
        @ concat (map (\<lambda>peer. bindingLines p peer (peerAddress g)) peerList)))"

text \<open>The post-up script for a private address.\<close>

definition upScriptLines :: "string \<Rightarrow> string list" where
  "upScriptLines address =
     [''#!/bin/bash'', ''ip link set tap0 up'', ''ip addr add '' @ address @ ''/24 dev tap0'']"

text \<open>Every field of a configuration has its documented default.\<close>

definition allDefaults :: "TincConfig \<Rightarrow> bool" where
  "allDefaults c =
     (AutoConnect c = tincAutoConnect \<and> ConnectTo c = DefaultTincRemotePeers
      \<and> Device c = tincDeviceTunTap \<and> DeviceType c = tincDeviceTypeTap
      \<and> Mode c = tincModeSwitch \<and> Name c = DefaultTincMainName
      \<and> CPU c = defaultCPUCapacity \<and> Memory c = defaultMemoryCapacity
      \<and> Pods c = defaultPodCapacity)"

text \<open>Every field that the struct declaration lists is blank.\<close>

definition allBlank :: "TincConfig \<Rightarrow> bool" where
  "allBlank c =
     (AutoConnect c = [] \<and> ConnectTo c = [] \<and> Device c = [] \<and> DeviceType c = []
      \<and> Mode c = [] \<and> Name c = [] \<and> CPU c = [] \<and> Memory c = [] \<and> Pods c = [])"

subsection \<open>Concrete inputs\<close>

text \<open>The inputs at which the theorems below are evaluated.\<close>

definition podOf :: "string \<Rightarrow> string \<Rightarrow> Pod" where
  "podOf namespace name =
     \<lparr>Namespace = namespace, PodName = name, Annotations = Map.empty, Containers = []\<rparr>"

definition pod_web :: Pod where
  "pod_web =
     \<lparr>Namespace = ''default'', PodName = ''web'', Annotations = [''vpnmode'' \<mapsto> ''peer''],
      Containers = [(''nginx'', ''nginx:1.15''), (''sidecar'', ''envoy:1.8'')]\<rparr>"

definition pod_web_new :: Pod where
  "pod_web_new =
     \<lparr>Namespace = ''default'', PodName = ''web'', Annotations = Map.empty,
      Containers = [(''nginx'', ''nginx:1.16'')]\<rparr>"

definition config_example :: TincConfig where
  "config_example =
     \<lparr>AutoConnect = ''yes'', ConnectTo = ''peerA peerB'', Device = ''/dev/net/tun'',
      DeviceType = ''tap'', Mode = ''switch'', Name = ''nodemain'', CPU = ''20'',
      Memory = ''100Gi'', Pods = ''20'', ExperimentalProtocol = []\<rparr>"

text \<open>A configuration whose mode has a line feed in it, as a JSON string can.\<close>

definition config_linefeed :: TincConfig where
  "config_linefeed = config_example\<lparr>Mode := ''switch\<newline>Port = 1''\<rparr>"

definition provider_example :: TincProvider where
  "provider_example =
     \<lparr>nodeName = ''vkubelet-tinc-0'', pods = Map.empty, tincAddress = ''192.168.99.100'',
      tincSubnet = ''10.1.1.0/24'', tincPort = 655, config = config_example\<rparr>"

definition provider_linefeed :: TincProvider where
  "provider_linefeed = provider_example\<lparr>config := config_linefeed\<rparr>"

definition system_example :: system where
  "system_example = \<lparr>prov = provider_example, vars = initialGlobals, calls = []\<rparr>"

definition system_with_web :: system where
  "system_with_web =
     \<lparr>prov = provider_example\<lparr>pods := [''default-web'' \<mapsto> pod_web, ''default-db'' \<mapsto> podOf ''default'' ''db'']\<rparr>,
      vars = initialGlobals, calls = []\<rparr>"

text \<open>An outside world in which every call succeeds, and one in which \<^verbatim>\<open>docker run\<close> fails.\<close>

definition outside_ok :: outside where
  "outside_ok =
     \<lparr>MkdirAll_err = (\<lambda>path. None), WriteFile_err = (\<lambda>path. None),
      Command_result = (\<lambda>args. ([], None))\<rparr>"

definition outside_run_fails :: outside where
  "outside_run_fails =
     \<lparr>MkdirAll_err = (\<lambda>path. None), WriteFile_err = (\<lambda>path. None),
      Command_result = (\<lambda>args. if ''run'' \<in> set args
                                 then (''docker: Error response from daemon'', Some (SysError ''exit status 125''))
                                 else ([], None))\<rparr>"

text \<open>A configuration file that decodes to the empty map, and one with a blank entry.\<close>

definition readFile_example :: "string \<Rightarrow> error + string" where
  "readFile_example path = Inr ''{}''"

definition unmarshal_empty :: "string \<Rightarrow> error + (string \<rightharpoonup> TincConfig)" where
  "unmarshal_empty data = Inr Map.empty"

definition unmarshal_blank :: "string \<Rightarrow> error + (string \<rightharpoonup> TincConfig)" where
  "unmarshal_blank data = Inr [''vkubelet-tinc-0'' \<mapsto> zeroConfig]"

section \<open>Key derivation\<close>

lemma sep_split_unique:
  "CHR ''-'' \<notin> set a \<Longrightarrow> CHR ''-'' \<notin> set b \<Longrightarrow>
   a @ CHR ''-'' # x = b @ CHR ''-'' # y \<Longrightarrow> a = b \<and> x = y"
proof (induction a arbitrary: b)
  case Nil
  then show ?case by (cases b) auto
next
  case (Cons c a)
  then show ?case by (cases b) auto
qed

lemma sep_split_unique_right:
  assumes "CHR ''-'' \<notin> set x" and "CHR ''-'' \<notin> set y"
    and "a @ CHR ''-'' # x = b @ CHR ''-'' # y"
  shows "a = b \<and> x = y"
proof -
  have "rev (a @ CHR ''-'' # x) = rev (b @ CHR ''-'' # y)"
    using assms(3) by simp
  then have "rev x @ CHR ''-'' # rev a = rev y @ CHR ''-'' # rev b"
    by simp
  moreover have "CHR ''-'' \<notin> set (rev x)" "CHR ''-'' \<notin> set (rev y)"
    using assms(1,2) by simp_all
  ultimately have "rev x = rev y \<and> rev a = rev b"
    by (rule sep_split_unique[rotated 2])
  then show ?thesis by simp
qed

text \<open>
  C2, as stated, fails: the key is the concatenation of namespace, \<open>-\<close> and name, so
  two different pairs of non-empty components whose \<open>-\<close> falls differently get the
  same key.
\<close>

theorem buildKey_not_injective:
  "buildKey (podOf ''a'' ''b-c'')
     = buildKey (podOf ''a-b'' ''c'')
   \<and> (''a'', ''b-c'') \<noteq> (''a-b'', ''c'')
   \<and> ''a'' \<noteq> [] \<and> ''b-c'' \<noteq> [] \<and> ''a-b'' \<noteq> [] \<and> ''c'' \<noteq> []"
  by (simp add: buildKey_def buildKeyFromNames_def podOf_def)

text \<open>
  C2, amended: for non-empty components \<^verbatim>\<open>buildKey\<close> succeeds with a key that
  depends on the namespace and the name only (stability), and where neither
  namespace contains \<open>-\<close>, or neither name does, the keys are equal exactly when
  the pairs are.
\<close>

theorem buildKey_injective_without_separator:
  assumes "Namespace p \<noteq> []" and "PodName p \<noteq> []"
    and "Namespace q \<noteq> []" and "PodName q \<noteq> []"
  shows "buildKey p = Inr (Namespace p @ ''-'' @ PodName p)
    \<and> (Namespace p = Namespace q \<and> PodName p = PodName q \<longrightarrow> buildKey p = buildKey q)
    \<and> ((CHR ''-'' \<notin> set (Namespace p) \<and> CHR ''-'' \<notin> set (Namespace q))
         \<or> (CHR ''-'' \<notin> set (PodName p) \<and> CHR ''-'' \<notin> set (PodName q)) \<longrightarrow>
         (buildKey p = buildKey q) = (Namespace p = Namespace q \<and> PodName p = PodName q))"
proof (intro conjI impI)
  show "buildKey p = Inr (Namespace p @ ''-'' @ PodName p)"
    using assms(1,2) by (simp add: buildKey_def buildKeyFromNames_def)
  show "buildKey p = buildKey q" if "Namespace p = Namespace q \<and> PodName p = PodName q"
    using that by (simp add: buildKey_def buildKeyFromNames_def)
  assume sep: "(CHR ''-'' \<notin> set (Namespace p) \<and> CHR ''-'' \<notin> set (Namespace q))
         \<or> (CHR ''-'' \<notin> set (PodName p) \<and> CHR ''-'' \<notin> set (PodName q))"
  have keys: "(buildKey p = buildKey q)
      = (Namespace p @ CHR ''-'' # PodName p = Namespace q @ CHR ''-'' # PodName q)"
    using assms by (simp add: buildKey_def buildKeyFromNames_def)
  have "Namespace p = Namespace q \<and> PodName p = PodName q"
    if "Namespace p @ CHR ''-'' # PodName p = Namespace q @ CHR ''-'' # PodName q"
    using sep
  proof
    assume "CHR ''-'' \<notin> set (Namespace p) \<and> CHR ''-'' \<notin> set (Namespace q)"
    then show ?thesis using that sep_split_unique by blast
  next
    assume "CHR ''-'' \<notin> set (PodName p) \<and> CHR ''-'' \<notin> set (PodName q)"
    then show ?thesis using that sep_split_unique_right by blast
  qed
  then show "(buildKey p = buildKey q) = (Namespace p = Namespace q \<and> PodName p = PodName q)"
    unfolding keys by auto
qed

theorem buildKey_injective_without_separator_witness:
  "buildKey (podOf ''default'' ''web-1'')
     = Inr ''default-web-1''
   \<and> buildKey (podOf ''default'' ''web-1'')
     \<noteq> buildKey (podOf ''kube'' ''web-1'')"
proof -
  let ?p = "podOf ''default'' ''web-1''"
  let ?q = "podOf ''kube'' ''web-1''"
  have h: "Namespace ?p \<noteq> []" "PodName ?p \<noteq> []" "Namespace ?q \<noteq> []" "PodName ?q \<noteq> []"
    by (simp_all add: podOf_def)
  note t = buildKey_injective_without_separator [OF h]
  from t have "buildKey ?p = Inr (Namespace ?p @ ''-'' @ PodName ?p)"
    by (rule conjunct1)
  then have a: "buildKey ?p = Inr ''default-web-1''" by (simp add: podOf_def)
  from t have b: "buildKey ?p \<noteq> buildKey ?q" by (auto simp add: podOf_def)
  from a b show ?thesis by (rule conjI)
qed

section \<open>Configuration\<close>

lemma quantity_ok_defaults:
  "\<not> quantity_ok []" "quantity_ok defaultCPUCapacity" "quantity_ok defaultMemoryCapacity"
  "quantity_ok defaultPodCapacity"
  by (simp_all add: quantity_ok_def quantity_number_def quantity_suffix_def isDigit_def
      defaultCPUCapacity_def defaultMemoryCapacity_def defaultPodCapacity_def)

text \<open>
  C1, as stated, fails: the defaults are assigned only inside the branch for a
  node name that has an entry. Without an entry the configuration keeps its empty
  fields, and the check of the CPU quantity rejects the empty string.
\<close>

theorem loadConfig_absent_not_default:
  "loadConfig readFile_example unmarshal_empty quantity_ok initialGlobals ''vk-tinc.json'' ''vkubelet-tinc-0''
     = (zeroConfig, Some (Errorf ''Invalid CPU value ''))
   \<and> \<not> allDefaults zeroConfig"
  by (simp add: loadConfig_def readFile_example_def unmarshal_empty_def quantity_ok_def
      zeroConfig_def allDefaults_def tincAutoConnect_def)

text \<open>
  C1, amended: for a settings source in which the node name has no entry,
  \<^verbatim>\<open>loadConfig\<close> returns the configuration with every field empty, and fails
  with \<open>Invalid CPU value\<close> (the quantity parser rejects the empty string). For a source
  in which the node name has an entry whose fields are all blank, it succeeds and
  every field has its documented default, the name being the current mesh node
  name (given that the default capacities parse as quantities).
\<close>

theorem loadConfig_absent_fails_blank_defaults:
  assumes "readFile providerConfig = Inr data" and "unmarshal data = Inr configMap"
  shows "(configMap node = None \<longrightarrow>
            fst (loadConfig readFile unmarshal parseQuantity g providerConfig node) = zeroConfig)
       \<and> (configMap node = None \<and> \<not> parseQuantity [] \<longrightarrow>
            loadConfig readFile unmarshal parseQuantity g providerConfig node
              = (zeroConfig, Some (Errorf ''Invalid CPU value '')))
       \<and> (configMap node = Some entry \<and> allBlank entry
            \<and> parseQuantity defaultCPUCapacity \<and> parseQuantity defaultMemoryCapacity
            \<and> parseQuantity defaultPodCapacity \<longrightarrow>
            loadConfig readFile unmarshal parseQuantity g providerConfig node
              = (entry\<lparr>AutoConnect := tincAutoConnect, ConnectTo := DefaultTincRemotePeers,
                       Device := tincDeviceTunTap, DeviceType := tincDeviceTypeTap,
                       Mode := tincModeSwitch, Name := tincMainName g,
                       CPU := defaultCPUCapacity, Memory := defaultMemoryCapacity,
                       Pods := defaultPodCapacity\<rparr>, None)
            \<and> (tincMainName g = DefaultTincMainName \<longrightarrow>
                 allDefaults (fst (loadConfig readFile unmarshal parseQuantity g providerConfig node))))"
proof (intro conjI impI)
  assume "configMap node = None"
  then show "fst (loadConfig readFile unmarshal parseQuantity g providerConfig node) = zeroConfig"
    using assms by (simp add: loadConfig_def)
next
  assume "configMap node = None \<and> \<not> parseQuantity []"
  then show "loadConfig readFile unmarshal parseQuantity g providerConfig node
              = (zeroConfig, Some (Errorf ''Invalid CPU value ''))"
    using assms by (simp add: loadConfig_def zeroConfig_def)
next
  assume h: "configMap node = Some entry \<and> allBlank entry
            \<and> parseQuantity defaultCPUCapacity \<and> parseQuantity defaultMemoryCapacity
            \<and> parseQuantity defaultPodCapacity"
  then show r: "loadConfig readFile unmarshal parseQuantity g providerConfig node
              = (entry\<lparr>AutoConnect := tincAutoConnect, ConnectTo := DefaultTincRemotePeers,
                       Device := tincDeviceTunTap, DeviceType := tincDeviceTypeTap,
                       Mode := tincModeSwitch, Name := tincMainName g,
                       CPU := defaultCPUCapacity, Memory := defaultMemoryCapacity,
                       Pods := defaultPodCapacity\<rparr>, None)"
    using assms by (simp add: loadConfig_def allBlank_def)
  assume "tincMainName g = DefaultTincMainName"
  then show "allDefaults (fst (loadConfig readFile unmarshal parseQuantity g providerConfig node))"
    unfolding r by (simp add: allDefaults_def)
qed

theorem loadConfig_absent_fails_blank_defaults_witness:
  "loadConfig readFile_example unmarshal_empty quantity_ok initialGlobals ''vk-tinc.json'' ''vkubelet-tinc-0''
     = (zeroConfig, Some (Errorf ''Invalid CPU value ''))
   \<and> snd (loadConfig readFile_example unmarshal_blank quantity_ok initialGlobals ''vk-tinc.json'' ''vkubelet-tinc-0'')
     = None
   \<and> allDefaults (fst (loadConfig readFile_example unmarshal_blank quantity_ok initialGlobals
        ''vk-tinc.json'' ''vkubelet-tinc-0''))"
proof -
  have r: "readFile_example ''vk-tinc.json'' = Inr ''{}''"
    by (simp add: readFile_example_def)
  have u1: "unmarshal_empty ''{}'' = Inr Map.empty"
    by (simp add: unmarshal_empty_def)
  have u2: "unmarshal_blank ''{}'' = Inr [''vkubelet-tinc-0'' \<mapsto> zeroConfig]"
    by (simp add: unmarshal_blank_def)
  have b: "allBlank zeroConfig"
    by (simp add: allBlank_def zeroConfig_def)
  have m: "tincMainName initialGlobals = DefaultTincMainName"
    by (simp add: initialGlobals_def)
  have "loadConfig readFile_example unmarshal_empty quantity_ok initialGlobals ''vk-tinc.json'' ''vkubelet-tinc-0''
     = (zeroConfig, Some (Errorf ''Invalid CPU value ''))"
    using loadConfig_absent_fails_blank_defaults
      [where readFile = readFile_example and providerConfig = "''vk-tinc.json''"
         and data = "''{}''" and unmarshal = unmarshal_empty and configMap = Map.empty
         and node = "''vkubelet-tinc-0''" and parseQuantity = quantity_ok
         and g = initialGlobals and entry = zeroConfig, OF r u1]
      quantity_ok_defaults(1)
    by simp
  moreover have "snd (loadConfig readFile_example unmarshal_blank quantity_ok initialGlobals ''vk-tinc.json'' ''vkubelet-tinc-0'')
     = None
     \<and> allDefaults (fst (loadConfig readFile_example unmarshal_blank quantity_ok initialGlobals
        ''vk-tinc.json'' ''vkubelet-tinc-0''))"
    using loadConfig_absent_fails_blank_defaults
      [where readFile = readFile_example and providerConfig = "''vk-tinc.json''"
         and data = "''{}''" and unmarshal = unmarshal_blank
         and configMap = "[''vkubelet-tinc-0'' \<mapsto> zeroConfig]"
         and node = "''vkubelet-tinc-0''" and parseQuantity = quantity_ok
         and g = initialGlobals and entry = zeroConfig, OF r u2]
      quantity_ok_defaults b m
    by (simp add: allDefaults_def)
  ultimately show ?thesis by simp
qed

section \<open>The generated files\<close>

subsection \<open>Texts and lines\<close>

lemma linesOf_from_line:
  "CHR 0x0A \<notin> set l \<Longrightarrow> linesOf_from cur (l @ CHR 0x0A # rest) = (cur @ l) # linesOf_from [] rest"
  by (induction l arbitrary: cur) auto

lemma linesOf_textOf:
  "(\<And>l. l \<in> set ls \<Longrightarrow> CHR 0x0A \<notin> set l) \<Longrightarrow> linesOf (textOf ls) = ls"
proof (induction ls)
  case Nil
  then show ?case by (simp add: linesOf_def textOf_def)
next
  case (Cons l ls)
  have "linesOf (textOf (l # ls)) = linesOf_from [] (l @ CHR 0x0A # textOf ls)"
    by (simp add: linesOf_def textOf_def)
  also have "\<dots> = l # linesOf_from [] (textOf ls)"
    using Cons.prems[of l] by (simp add: linesOf_from_line)
  also have "linesOf_from [] (textOf ls) = ls"
    using Cons.IH Cons.prems by (simp add: linesOf_def)
  finally show ?case .
qed

lemma decimal_digits: "set (decimal n) \<subseteq> set ''0123456789''"
proof (induction n rule: decimal.induct)
  case (1 n)
  have d: "''0123456789'' ! k \<in> set ''0123456789''" if "k < 10" for k
    using that by (intro nth_mem) simp
  show ?case
  proof (cases "n < 10")
    case True
    then show ?thesis
      using d [of n] by (subst decimal.simps) simp
  next
    case False
    have "n mod 10 < 10" by simp
    then have "''0123456789'' ! (n mod 10) \<in> set ''0123456789''"
      by (rule d)
    then show ?thesis
      using False "1.IH" by (subst decimal.simps) simp
  qed
qed

lemma Sprintf_d_no_linefeed: "CHR 0x0A \<notin> set (Sprintf_d w)"
proof -
  have "CHR 0x0A \<notin> set (decimal n)" for n
    using decimal_digits [of n] by auto
  then show ?thesis by (simp add: Sprintf_d_def)
qed

lemma Fields_default_peers: "Fields DefaultTincRemotePeers = [''nodepeer'']"
  by (simp add: Fields_def DefaultTincRemotePeers_def asciiSpace_def)

lemma startupData_text:
  "startupData p g =
     textOf (map addLine (scalarSettings p g
       @ bindingLines p (Name (config p)) (myAddress g)
       @ bindingLines p ''nodepeer'' (peerAddress g)))"
  by (simp add: startupData_def Fields_default_peers Let_def
      textOf_def addLine_def scalarSettings_def bindingLines_def)

lemma mainData_text:
  "mainData p g =
     textOf (take 4 (scalarSettings p g)
       @ [''ExperimentalProtocol = '' @ ExperimentalProtocol (config p)]
       @ drop 4 (scalarSettings p g))"
  by (simp add: mainData_def textOf_def scalarSettings_def)

lemma upScriptData_text: "upScriptData g = textOf (upScriptLines (privateAddress g))"
  by (simp add: upScriptData_def textOf_def upScriptLines_def)

lemma startupData_lines:
  assumes "list_all (\<lambda>v. CHR 0x0A \<notin> set v)
             [AutoConnect (config p), Device (config p), DeviceType (config p), Mode (config p),
              Name (config p), tincSubnet p, myAddress g, peerAddress g, tincPeerName g,
              tincMainName g]"
  shows "linesOf (startupData p g) =
     [''add AutoConnect = '' @ AutoConnect (config p),
      ''add ConnectTo = '' @ tincPeerName g,
      ''add Device = '' @ Device (config p),
      ''add DeviceType = '' @ DeviceType (config p),
      ''add Mode = '' @ Mode (config p),
      ''add Name = '' @ tincMainName g,
      ''add '' @ Name (config p) @ ''.Address = '' @ myAddress g,
      ''add '' @ Name (config p) @ ''.Subnet = '' @ tincSubnet p,
      ''add '' @ Name (config p) @ ''.Port = '' @ Sprintf_d (tincPort p),
      ''add nodepeer.Address = '' @ peerAddress g,
      ''add nodepeer.Subnet = '' @ tincSubnet p,
      ''add nodepeer.Port = '' @ Sprintf_d (tincPort p)]"
proof -
  have "linesOf (startupData p g) =
     map addLine (scalarSettings p g
       @ bindingLines p (Name (config p)) (myAddress g)
       @ bindingLines p ''nodepeer'' (peerAddress g))"
    unfolding startupData_text
    using assms Sprintf_d_no_linefeed [of "tincPort p"]
    by (intro linesOf_textOf)
       (auto simp add: addLine_def scalarSettings_def bindingLines_def)
  then show ?thesis
    by (simp add: addLine_def scalarSettings_def bindingLines_def)
qed

lemma upScriptData_lines:
  "CHR 0x0A \<notin> set (privateAddress g) \<Longrightarrow>
   linesOf (upScriptData g) = upScriptLines (privateAddress g)"
  unfolding upScriptData_text
  by (intro linesOf_textOf) (auto simp add: upScriptLines_def)

subsection \<open>The calls of \<^verbatim>\<open>createStartupConfig\<close> and \<^verbatim>\<open>CreatePod\<close>\<close>

lemma startupData_pods: "startupData (p\<lparr>pods := m\<rparr>) g = startupData p g"
  by (simp add: startupData_def)

lemma mainData_pods: "mainData (p\<lparr>pods := m\<rparr>) g = mainData p g"
  by (simp add: mainData_def)

lemma createStartupConfig_calls_first:
  assumes "MkdirAll_err os (filepath_Join [''/tmp'', tincMainName (vars s)]) = None"
  shows "\<exists>rest. calls (snd (createStartupConfig os s)) =
     calls s @ [MkdirAll (filepath_Join [''/tmp'', tincMainName (vars s)]) 509,
                WriteFile (tincStartupConfigHost (vars s)) (startupData (prov s) (vars s)) 420] @ rest"
  using assms by (simp add: createStartupConfig_def Let_def split: option.splits)

lemma createStartupConfig_calls_all:
  assumes "MkdirAll_err os (filepath_Join [''/tmp'', tincMainName (vars s)]) = None"
    and "WriteFile_err os (tincStartupConfigHost (vars s)) = None"
    and "WriteFile_err os (tincMainConfigHost (vars s)) = None"
  shows "calls (snd (createStartupConfig os s)) =
     calls s @ [MkdirAll (filepath_Join [''/tmp'', tincMainName (vars s)]) 509,
                WriteFile (tincStartupConfigHost (vars s)) (startupData (prov s) (vars s)) 420,
                WriteFile (tincMainConfigHost (vars s)) (mainData (prov s) (vars s)) 420,
                WriteFile (tincUpScriptHost (vars s)) (upScriptData (vars s)) 493]"
  using assms by (simp add: createStartupConfig_def Let_def split: option.splits)

lemma createStartupConfig_succeeds:
  assumes "MkdirAll_err os (filepath_Join [''/tmp'', tincMainName (vars s)]) = None"
    and "WriteFile_err os (tincStartupConfigHost (vars s)) = None"
    and "WriteFile_err os (tincMainConfigHost (vars s)) = None"
    and "WriteFile_err os (tincUpScriptHost (vars s)) = None"
  shows "fst (createStartupConfig os s) = None"
    and "vars (snd (createStartupConfig os s)) = vars s"
  using assms by (simp_all add: createStartupConfig_def Let_def)

lemma CreatePod_calls_prefix:
  assumes "buildKey pod = Inr key"
  shows "\<exists>rest. calls (snd (CreatePod os pod s)) =
     calls (snd (createStartupConfig os
        (s\<lparr>prov := (prov s)\<lparr>pods := (pods (prov s))(key \<mapsto> pod)\<rparr>,
           vars := setMeshIdentity pod (vars s)\<rparr>))) @ rest"
  using assms by (simp add: CreatePod_def Let_def split: prod.splits option.splits)

lemma setMeshIdentity_fields:
  "tincMainName (setMeshIdentity pod g) =
     (if Annotations pod ''vpnmode'' = Some ''peer'' then ''nodepeer'' else ''nodemain'')"
  "tincPeerName (setMeshIdentity pod g) =
     (if Annotations pod ''vpnmode'' = Some ''peer'' then ''nodemain'' else ''nodepeer'')"
  "privateAddress (setMeshIdentity pod g) =
     (if Annotations pod ''vpnmode'' = Some ''peer'' then ''10.1.1.2'' else ''10.1.1.1'')"
  "myAddress (setMeshIdentity pod g) = myAddress g"
  "peerAddress (setMeshIdentity pod g) = peerAddress g"
  "tincStartupConfigHost (setMeshIdentity pod g) =
     (if Annotations pod ''vpnmode'' = Some ''peer''
      then ''/tmp/nodepeer/vk-startup-config.conf'' else ''/tmp/nodemain/vk-startup-config.conf'')"
  "tincMainConfigHost (setMeshIdentity pod g) =
     (if Annotations pod ''vpnmode'' = Some ''peer''
      then ''/tmp/nodepeer/vk-main.conf'' else ''/tmp/nodemain/vk-main.conf'')"
  "tincUpScriptHost (setMeshIdentity pod g) =
     (if Annotations pod ''vpnmode'' = Some ''peer''
      then ''/tmp/nodepeer/vk-tinc-up'' else ''/tmp/nodemain/vk-tinc-up'')"
  by (simp_all add: setMeshIdentity_def Let_def filepath_Join_def DefaultTincMainName_def
      DefaultTincRemotePeers_def DefaultTincPeerPrivateAddress_def
      DefaultTincMainPrivateAddress_def split: option.splits)

lemma buildKey_nonempty:
  "Namespace pod \<noteq> [] \<Longrightarrow> PodName pod \<noteq> [] \<Longrightarrow>
   buildKey pod = Inr (Namespace pod @ ''-'' @ PodName pod)"
  by (simp add: buildKey_def buildKeyFromNames_def)

lemma CreatePod_calls_first:
  assumes "Namespace pod \<noteq> []" and "PodName pod \<noteq> []"
    and "MkdirAll_err os (filepath_Join [''/tmp'', tincMainName (setMeshIdentity pod (vars s))]) = None"
  shows "calls (snd (CreatePod os pod s)) ! (length (calls s) + 1) =
     WriteFile (tincStartupConfigHost (setMeshIdentity pod (vars s)))
       (startupData (prov s) (setMeshIdentity pod (vars s))) 420"
proof -
  let ?s = "s\<lparr>prov := (prov s)\<lparr>pods := (pods (prov s))(Namespace pod @ ''-'' @ PodName pod \<mapsto> pod)\<rparr>,
               vars := setMeshIdentity pod (vars s)\<rparr>"
  obtain r1 where 1: "calls (snd (CreatePod os pod s)) = calls (snd (createStartupConfig os ?s)) @ r1"
    using CreatePod_calls_prefix [OF buildKey_nonempty [OF assms(1,2)]] by blast
  have "MkdirAll_err os (filepath_Join [''/tmp'', tincMainName (vars ?s)]) = None"
    using assms(3) by simp
  then obtain r2 where 2: "calls (snd (createStartupConfig os ?s)) =
     calls ?s @ [MkdirAll (filepath_Join [''/tmp'', tincMainName (vars ?s)]) 509,
                WriteFile (tincStartupConfigHost (vars ?s)) (startupData (prov ?s) (vars ?s)) 420] @ r2"
    using createStartupConfig_calls_first [of os ?s] by blast
  show ?thesis
    unfolding 1 2 by (simp add: nth_append startupData_pods)
qed

lemma CreatePod_calls_all:
  assumes "Namespace pod \<noteq> []" and "PodName pod \<noteq> []"
    and "MkdirAll_err os (filepath_Join [''/tmp'', tincMainName (setMeshIdentity pod (vars s))]) = None"
    and "WriteFile_err os (tincStartupConfigHost (setMeshIdentity pod (vars s))) = None"
    and "WriteFile_err os (tincMainConfigHost (setMeshIdentity pod (vars s))) = None"
  shows "\<exists>rest. calls (snd (CreatePod os pod s)) =
     calls s @
     [MkdirAll (filepath_Join [''/tmp'', tincMainName (setMeshIdentity pod (vars s))]) 509,
      WriteFile (tincStartupConfigHost (setMeshIdentity pod (vars s)))
        (startupData (prov s) (setMeshIdentity pod (vars s))) 420,
      WriteFile (tincMainConfigHost (setMeshIdentity pod (vars s)))
        (mainData (prov s) (setMeshIdentity pod (vars s))) 420,
      WriteFile (tincUpScriptHost (setMeshIdentity pod (vars s)))
        (upScriptData (setMeshIdentity pod (vars s))) 493] @ rest"
proof -
  let ?s = "s\<lparr>prov := (prov s)\<lparr>pods := (pods (prov s))(Namespace pod @ ''-'' @ PodName pod \<mapsto> pod)\<rparr>,
               vars := setMeshIdentity pod (vars s)\<rparr>"
  obtain r1 where 1: "calls (snd (CreatePod os pod s)) = calls (snd (createStartupConfig os ?s)) @ r1"
    using CreatePod_calls_prefix [OF buildKey_nonempty [OF assms(1,2)]] by blast
  have 2: "calls (snd (createStartupConfig os ?s)) =
     calls ?s @ [MkdirAll (filepath_Join [''/tmp'', tincMainName (vars ?s)]) 509,
                WriteFile (tincStartupConfigHost (vars ?s)) (startupData (prov ?s) (vars ?s)) 420,
                WriteFile (tincMainConfigHost (vars ?s)) (mainData (prov ?s) (vars ?s)) 420,
                WriteFile (tincUpScriptHost (vars ?s)) (upScriptData (vars ?s)) 493]"
    using assms(3-5) by (intro createStartupConfig_calls_all) simp_all
  show ?thesis
    unfolding 1 2 by (simp add: startupData_pods mainData_pods)
qed

lemma CreatePod_succeeds:
  assumes "Namespace pod \<noteq> []" and "PodName pod \<noteq> []"
    and "MkdirAll_err os (filepath_Join [''/tmp'', tincMainName (setMeshIdentity pod (vars s))]) = None"
    and "WriteFile_err os (tincStartupConfigHost (setMeshIdentity pod (vars s))) = None"
    and "WriteFile_err os (tincMainConfigHost (setMeshIdentity pod (vars s))) = None"
    and "WriteFile_err os (tincUpScriptHost (setMeshIdentity pod (vars s))) = None"
    and "snd (Command_result os (dockerRunArgs (setMeshIdentity pod (vars s)))) = None"
  shows "fst (CreatePod os pod s) = None"
proof -
  let ?s = "s\<lparr>prov := (prov s)\<lparr>pods := (pods (prov s))(Namespace pod @ ''-'' @ PodName pod \<mapsto> pod)\<rparr>,
               vars := setMeshIdentity pod (vars s)\<rparr>"
  obtain r t where c: "createStartupConfig os ?s = (r, t)"
    by (cases "createStartupConfig os ?s")
  have "fst (createStartupConfig os ?s) = None" "vars (snd (createStartupConfig os ?s)) = vars ?s"
    using assms(3-6) by (simp_all add: createStartupConfig_succeeds)
  then have "r = None" "vars t = setMeshIdentity pod (vars s)"
    using c by simp_all
  moreover obtain out where "Command_result os (dockerRunArgs (setMeshIdentity pod (vars s))) = (out, None)"
    using assms(7) by (cases "Command_result os (dockerRunArgs (setMeshIdentity pod (vars s)))") simp
  ultimately show ?thesis
    using c buildKey_nonempty [OF assms(1,2)]
    by (simp add: CreatePod_def Let_def)
qed

subsection \<open>A concrete run of \<^verbatim>\<open>CreatePod\<close>\<close>

lemma example_CreatePod_files:
  "take 4 (calls (snd (CreatePod outside_ok pod_web system_example))) =
     [MkdirAll ''/tmp/nodepeer'' 509,
      WriteFile ''/tmp/nodepeer/vk-startup-config.conf''
        (textOf
          [''add AutoConnect = yes'', ''add ConnectTo = nodemain'', ''add Device = /dev/net/tun'',
           ''add DeviceType = tap'', ''add Mode = switch'', ''add Name = nodepeer'',
           ''add nodemain.Address = 172.17.0.2'', ''add nodemain.Subnet = 10.1.1.0/24'',
           ''add nodemain.Port = 655'',
           ''add nodepeer.Address = 172.17.0.3'', ''add nodepeer.Subnet = 10.1.1.0/24'',
           ''add nodepeer.Port = 655'']) 420,
      WriteFile ''/tmp/nodepeer/vk-main.conf''
        (textOf
          [''AutoConnect = yes'', ''ConnectTo = nodemain'', ''Device = /dev/net/tun'',
           ''DeviceType = tap'', ''ExperimentalProtocol = '', ''Mode = switch'',
           ''Name = nodepeer'']) 420,
      WriteFile ''/tmp/nodepeer/vk-tinc-up''
        (textOf [''#!/bin/bash'', ''ip link set tap0 up'', ''ip addr add 10.1.1.2/24 dev tap0'']) 493]"
proof -
  have n: "Namespace pod_web \<noteq> []" "PodName pod_web \<noteq> []"
    by (simp_all add: pod_web_def)
  have o: "MkdirAll_err outside_ok p = None" "WriteFile_err outside_ok p = None" for p
    by (simp_all add: outside_ok_def)
  have v: "Annotations pod_web ''vpnmode'' = Some ''peer''"
    by (simp add: pod_web_def)
  have "\<exists>rest. calls (snd (CreatePod outside_ok pod_web system_example)) =
     calls system_example @
     [MkdirAll (filepath_Join [''/tmp'', tincMainName (setMeshIdentity pod_web (vars system_example))]) 509,
      WriteFile (tincStartupConfigHost (setMeshIdentity pod_web (vars system_example)))
        (startupData (prov system_example) (setMeshIdentity pod_web (vars system_example))) 420,
      WriteFile (tincMainConfigHost (setMeshIdentity pod_web (vars system_example)))
        (mainData (prov system_example) (setMeshIdentity pod_web (vars system_example))) 420,
      WriteFile (tincUpScriptHost (setMeshIdentity pod_web (vars system_example)))
        (upScriptData (setMeshIdentity pod_web (vars system_example))) 493] @ rest"
    using n o by (intro CreatePod_calls_all)
  then obtain rest where "calls (snd (CreatePod outside_ok pod_web system_example)) =
     calls system_example @
     [MkdirAll (filepath_Join [''/tmp'', tincMainName (setMeshIdentity pod_web (vars system_example))]) 509,
      WriteFile (tincStartupConfigHost (setMeshIdentity pod_web (vars system_example)))
        (startupData (prov system_example) (setMeshIdentity pod_web (vars system_example))) 420,
      WriteFile (tincMainConfigHost (setMeshIdentity pod_web (vars system_example)))
        (mainData (prov system_example) (setMeshIdentity pod_web (vars system_example))) 420,
      WriteFile (tincUpScriptHost (setMeshIdentity pod_web (vars system_example)))
        (upScriptData (setMeshIdentity pod_web (vars system_example))) 493] @ rest"
    by blast
  then show ?thesis
    by (simp add: system_example_def setMeshIdentity_fields v filepath_Join_def
        startupData_text mainData_text upScriptData_text scalarSettings_def bindingLines_def
        addLine_def upScriptLines_def provider_example_def config_example_def initialGlobals_def
        Sprintf_d_def decimal.simps DefaultTincMainAddress_def DefaultTincPeerAddress_def)
qed

lemma example_linefeed_lines:
  "linesOf (startupData provider_linefeed initialGlobals) =
     [''add AutoConnect = yes'', ''add ConnectTo = nodepeer'', ''add Device = /dev/net/tun'',
      ''add DeviceType = tap'', ''add Mode = switch'', ''Port = 1'', ''add Name = nodemain'',
      ''add nodemain.Address = 172.17.0.2'', ''add nodemain.Subnet = 10.1.1.0/24'',
      ''add nodemain.Port = 655'',
      ''add nodepeer.Address = 172.17.0.3'', ''add nodepeer.Subnet = 10.1.1.0/24'',
      ''add nodepeer.Port = 655'']"
  by (simp add: startupData_text textOf_def linesOf_def addLine_def scalarSettings_def
      bindingLines_def provider_linefeed_def provider_example_def config_linefeed_def
      config_example_def initialGlobals_def Sprintf_d_def decimal.simps DefaultTincMainAddress_def
      DefaultTincPeerAddress_def DefaultTincMainName_def DefaultTincRemotePeers_def)

subsection \<open>The daemon configuration\<close>

text \<open>
  C3: the claim is that the daemon configuration has the six scalar settings of
  the startup directives, without the prefix \<open>add\<close>, and no other line. The code
  departs from it. In the run below \<^verbatim>\<open>CreatePod\<close> writes seven lines to
  \<^verbatim>\<open>vk-main.conf\<close>: between \<open>DeviceType\<close> and \<open>Mode\<close> stands a line
  \<open>ExperimentalProtocol\<close>, which is not among the scalar lines written to
  \<^verbatim>\<open>vk-startup-config.conf\<close> and whose value is read from a field that the
  declaration of \<^verbatim>\<open>TincConfig\<close> does not have.
\<close>

theorem CreatePod_main_config_seventh_line:
  "calls (snd (CreatePod outside_ok pod_web system_example)) ! 1 =
     WriteFile ''/tmp/nodepeer/vk-startup-config.conf''
       (textOf
         [''add AutoConnect = yes'', ''add ConnectTo = nodemain'', ''add Device = /dev/net/tun'',
          ''add DeviceType = tap'', ''add Mode = switch'', ''add Name = nodepeer'',
          ''add nodemain.Address = 172.17.0.2'', ''add nodemain.Subnet = 10.1.1.0/24'',
          ''add nodemain.Port = 655'',
          ''add nodepeer.Address = 172.17.0.3'', ''add nodepeer.Subnet = 10.1.1.0/24'',
          ''add nodepeer.Port = 655'']) 420
   \<and> calls (snd (CreatePod outside_ok pod_web system_example)) ! 2 =
     WriteFile ''/tmp/nodepeer/vk-main.conf''
       (textOf
         [''AutoConnect = yes'', ''ConnectTo = nodemain'', ''Device = /dev/net/tun'',
          ''DeviceType = tap'', ''ExperimentalProtocol = '', ''Mode = switch'',
          ''Name = nodepeer'']) 420
   \<and> textOf
         [''AutoConnect = yes'', ''ConnectTo = nodemain'', ''Device = /dev/net/tun'',
          ''DeviceType = tap'', ''ExperimentalProtocol = '', ''Mode = switch'',
          ''Name = nodepeer'']
     = ''AutoConnect = yes\<newline>ConnectTo = nodemain\<newline>Device = /dev/net/tun\<newline>DeviceType = tap\<newline>ExperimentalProtocol = \<newline>Mode = switch\<newline>Name = nodepeer\<newline>''
   \<and> [''AutoConnect = yes'', ''ConnectTo = nodemain'', ''Device = /dev/net/tun'',
        ''DeviceType = tap'', ''ExperimentalProtocol = '', ''Mode = switch'', ''Name = nodepeer'']
     \<noteq> map (drop 4)
          (take 6
            [''add AutoConnect = yes'', ''add ConnectTo = nodemain'', ''add Device = /dev/net/tun'',
             ''add DeviceType = tap'', ''add Mode = switch'', ''add Name = nodepeer'',
             ''add nodemain.Address = 172.17.0.2'', ''add nodemain.Subnet = 10.1.1.0/24'',
             ''add nodemain.Port = 655'',
             ''add nodepeer.Address = 172.17.0.3'', ''add nodepeer.Subnet = 10.1.1.0/24'',
             ''add nodepeer.Port = 655''])"
proof -
  have "calls (snd (CreatePod outside_ok pod_web system_example)) ! 1
      = take 4 (calls (snd (CreatePod outside_ok pod_web system_example))) ! 1"
    and "calls (snd (CreatePod outside_ok pod_web system_example)) ! 2
      = take 4 (calls (snd (CreatePod outside_ok pod_web system_example))) ! 2"
    by simp_all
  then show ?thesis
    unfolding example_CreatePod_files by (simp add: textOf_def)
qed

subsection \<open>The startup directives\<close>

text \<open>
  C5, as stated, fails. The peer block does not follow a peer list that the
  generator is given: it is built from the fields of the constant
  \<^verbatim>\<open>DefaultTincRemotePeers\<close>, so the text has the three lines of \<open>nodepeer\<close> for an empty
  peer list and for the configured list \<open>peerA peerB\<close> alike, and the line
  \<open>ConnectTo\<close> carries the peer name of the mesh identity, not the configured list.
  And a configuration value with a line feed in it (here the mode) is written as
  it is, so the text has a line without \<open>add\<close>.
\<close>

theorem startupData_ignores_peer_list:
  "startupData provider_example initialGlobals
     \<noteq> startupLayout provider_example initialGlobals (Fields [])
   \<and> startupData provider_example initialGlobals
     \<noteq> startupLayout provider_example initialGlobals (Fields (ConnectTo (config provider_example)))
   \<and> Fields (ConnectTo (config provider_example)) = [''peerA'', ''peerB'']
   \<and> linesOf (startupData provider_example initialGlobals) ! 1 = ''add ConnectTo = nodepeer''
   \<and> length (linesOf (startupData provider_linefeed initialGlobals)) = 13
   \<and> linesOf (startupData provider_linefeed initialGlobals) ! 5 = ''Port = 1''"
proof -
  have "list_all (\<lambda>v. CHR 0x0A \<notin> set v)
             [AutoConnect (config provider_example), Device (config provider_example),
              DeviceType (config provider_example), Mode (config provider_example),
              Name (config provider_example), tincSubnet provider_example,
              myAddress initialGlobals, peerAddress initialGlobals, tincPeerName initialGlobals,
              tincMainName initialGlobals]"
    by (simp add: provider_example_def config_example_def initialGlobals_def
        DefaultTincMainAddress_def DefaultTincPeerAddress_def DefaultTincMainName_def
        DefaultTincRemotePeers_def)
  then have "linesOf (startupData provider_example initialGlobals) ! 1
      = ''add ConnectTo = '' @ tincPeerName initialGlobals"
    by (simp add: startupData_lines)
  then have c: "linesOf (startupData provider_example initialGlobals) ! 1 = ''add ConnectTo = nodepeer''"
    by (simp add: initialGlobals_def DefaultTincRemotePeers_def)
  have "startupData provider_example initialGlobals
     \<noteq> startupLayout provider_example initialGlobals (Fields [])
   \<and> startupData provider_example initialGlobals
     \<noteq> startupLayout provider_example initialGlobals (Fields (ConnectTo (config provider_example)))
   \<and> Fields (ConnectTo (config provider_example)) = [''peerA'', ''peerB'']"
    by (simp add: startupData_text startupLayout_def Fields_def asciiSpace_def textOf_def
      addLine_def scalarSettings_def bindingLines_def provider_example_def config_example_def)
  moreover have "length (linesOf (startupData provider_linefeed initialGlobals)) = 13"
    and "linesOf (startupData provider_linefeed initialGlobals) ! 5 = ''Port = 1''"
    unfolding example_linefeed_lines by simp_all
  ultimately show ?thesis
    using c by blast
qed

text \<open>
  C5, amended: for every effective configuration whose values contain no line
  feed and every mesh identity that \<^verbatim>\<open>CreatePod\<close> selects, once the directory of
  the node is made, the startup directives that \<^verbatim>\<open>CreatePod\<close> writes to
  \<^verbatim>\<open>vk-startup-config.conf\<close> consist of one line \<open>add <Key> = <Value>\<close>
  per scalar setting (\<open>AutoConnect\<close>, \<open>ConnectTo\<close>, \<open>Device\<close>, \<open>DeviceType\<close>, \<open>Mode\<close>,
  \<open>Name\<close>, where \<open>ConnectTo\<close> and \<open>Name\<close> carry the peer name and the node name of the
  mesh identity and the others the values of the configuration), followed by the
  three binding lines of the local node, followed by one such triple per entry of
  the fixed default peer list, which has the single entry \<open>nodepeer\<close>; the
  configured peer list is not read. When the directory and the three files can be
  written and the container starts, the call succeeds.
\<close>

theorem CreatePod_startup_directives:
  assumes "Namespace pod \<noteq> []" and "PodName pod \<noteq> []"
    and "list_all (\<lambda>v. CHR 0x0A \<notin> set v)
           [AutoConnect (config (prov s)), Device (config (prov s)), DeviceType (config (prov s)),
            Mode (config (prov s)), Name (config (prov s)), tincSubnet (prov s),
            myAddress (vars s), peerAddress (vars s)]"
    and "MkdirAll_err os (filepath_Join [''/tmp'', tincMainName (setMeshIdentity pod (vars s))]) = None"
  shows "calls (snd (CreatePod os pod s)) ! (length (calls s) + 1) =
      WriteFile
        (if Annotations pod ''vpnmode'' = Some ''peer''
         then ''/tmp/nodepeer/vk-startup-config.conf'' else ''/tmp/nodemain/vk-startup-config.conf'')
        (startupData (prov s) (setMeshIdentity pod (vars s))) 420
    \<and> linesOf (startupData (prov s) (setMeshIdentity pod (vars s))) =
        [''add AutoConnect = '' @ AutoConnect (config (prov s)),
         ''add ConnectTo = ''
           @ (if Annotations pod ''vpnmode'' = Some ''peer'' then ''nodemain'' else ''nodepeer''),
         ''add Device = '' @ Device (config (prov s)),
         ''add DeviceType = '' @ DeviceType (config (prov s)),
         ''add Mode = '' @ Mode (config (prov s)),
         ''add Name = ''
           @ (if Annotations pod ''vpnmode'' = Some ''peer'' then ''nodepeer'' else ''nodemain''),
         ''add '' @ Name (config (prov s)) @ ''.Address = '' @ myAddress (vars s),
         ''add '' @ Name (config (prov s)) @ ''.Subnet = '' @ tincSubnet (prov s),
         ''add '' @ Name (config (prov s)) @ ''.Port = '' @ Sprintf_d (tincPort (prov s)),
         ''add nodepeer.Address = '' @ peerAddress (vars s),
         ''add nodepeer.Subnet = '' @ tincSubnet (prov s),
         ''add nodepeer.Port = '' @ Sprintf_d (tincPort (prov s))]
    \<and> Fields DefaultTincRemotePeers = [''nodepeer'']
    \<and> (WriteFile_err os (tincStartupConfigHost (setMeshIdentity pod (vars s))) = None
        \<and> WriteFile_err os (tincMainConfigHost (setMeshIdentity pod (vars s))) = None
        \<and> WriteFile_err os (tincUpScriptHost (setMeshIdentity pod (vars s))) = None
        \<and> snd (Command_result os (dockerRunArgs (setMeshIdentity pod (vars s)))) = None \<longrightarrow>
        fst (CreatePod os pod s) = None)"
proof (intro conjI impI)
  show "calls (snd (CreatePod os pod s)) ! (length (calls s) + 1) =
      WriteFile
        (if Annotations pod ''vpnmode'' = Some ''peer''
         then ''/tmp/nodepeer/vk-startup-config.conf'' else ''/tmp/nodemain/vk-startup-config.conf'')
        (startupData (prov s) (setMeshIdentity pod (vars s))) 420"
    using CreatePod_calls_first [OF assms(1,2,4)] by (simp add: setMeshIdentity_fields)
  have "list_all (\<lambda>v. CHR 0x0A \<notin> set v)
             [AutoConnect (config (prov s)), Device (config (prov s)), DeviceType (config (prov s)),
              Mode (config (prov s)), Name (config (prov s)), tincSubnet (prov s),
              myAddress (setMeshIdentity pod (vars s)), peerAddress (setMeshIdentity pod (vars s)),
              tincPeerName (setMeshIdentity pod (vars s)), tincMainName (setMeshIdentity pod (vars s))]"
    using assms(3) by (simp add: setMeshIdentity_fields)
  from startupData_lines [OF this]
  show "linesOf (startupData (prov s) (setMeshIdentity pod (vars s))) =
        [''add AutoConnect = '' @ AutoConnect (config (prov s)),
         ''add ConnectTo = ''
           @ (if Annotations pod ''vpnmode'' = Some ''peer'' then ''nodemain'' else ''nodepeer''),
         ''add Device = '' @ Device (config (prov s)),
         ''add DeviceType = '' @ DeviceType (config (prov s)),
         ''add Mode = '' @ Mode (config (prov s)),
         ''add Name = ''
           @ (if Annotations pod ''vpnmode'' = Some ''peer'' then ''nodepeer'' else ''nodemain''),
         ''add '' @ Name (config (prov s)) @ ''.Address = '' @ myAddress (vars s),
         ''add '' @ Name (config (prov s)) @ ''.Subnet = '' @ tincSubnet (prov s),
         ''add '' @ Name (config (prov s)) @ ''.Port = '' @ Sprintf_d (tincPort (prov s)),
         ''add nodepeer.Address = '' @ peerAddress (vars s),
         ''add nodepeer.Subnet = '' @ tincSubnet (prov s),
         ''add nodepeer.Port = '' @ Sprintf_d (tincPort (prov s))]"
    by (simp add: setMeshIdentity_fields)
  show "Fields DefaultTincRemotePeers = [''nodepeer'']"
    by (rule Fields_default_peers)
  assume "WriteFile_err os (tincStartupConfigHost (setMeshIdentity pod (vars s))) = None
        \<and> WriteFile_err os (tincMainConfigHost (setMeshIdentity pod (vars s))) = None
        \<and> WriteFile_err os (tincUpScriptHost (setMeshIdentity pod (vars s))) = None
        \<and> snd (Command_result os (dockerRunArgs (setMeshIdentity pod (vars s)))) = None"
  then show "fst (CreatePod os pod s) = None"
    using assms(1,2,4) by (intro CreatePod_succeeds) simp_all
qed

theorem CreatePod_startup_directives_witness:
  "calls (snd (CreatePod outside_ok pod_web system_example)) ! 1 =
      WriteFile ''/tmp/nodepeer/vk-startup-config.conf''
        (startupData provider_example (setMeshIdentity pod_web initialGlobals)) 420
   \<and> linesOf (startupData provider_example (setMeshIdentity pod_web initialGlobals)) =
       [''add AutoConnect = yes'', ''add ConnectTo = nodemain'', ''add Device = /dev/net/tun'',
        ''add DeviceType = tap'', ''add Mode = switch'', ''add Name = nodepeer'',
        ''add nodemain.Address = 172.17.0.2'', ''add nodemain.Subnet = 10.1.1.0/24'',
        ''add nodemain.Port = 655'',
        ''add nodepeer.Address = 172.17.0.3'', ''add nodepeer.Subnet = 10.1.1.0/24'',
        ''add nodepeer.Port = 655'']
   \<and> fst (CreatePod outside_ok pod_web system_example) = None"
proof -
  have n: "Namespace pod_web \<noteq> []" "PodName pod_web \<noteq> []"
    by (simp_all add: pod_web_def)
  have l: "list_all (\<lambda>v. CHR 0x0A \<notin> set v)
           [AutoConnect (config (prov system_example)), Device (config (prov system_example)),
            DeviceType (config (prov system_example)), Mode (config (prov system_example)),
            Name (config (prov system_example)), tincSubnet (prov system_example),
            myAddress (vars system_example), peerAddress (vars system_example)]"
    by (simp add: system_example_def provider_example_def config_example_def initialGlobals_def
        DefaultTincMainAddress_def DefaultTincPeerAddress_def)
  have m: "MkdirAll_err outside_ok
      (filepath_Join [''/tmp'', tincMainName (setMeshIdentity pod_web (vars system_example))]) = None"
    by (simp add: outside_ok_def)
  have v: "Annotations pod_web ''vpnmode'' = Some ''peer''"
    by (simp add: pod_web_def)
  note t = CreatePod_startup_directives [OF n l m]
  from t [THEN conjunct1]
  have a: "calls (snd (CreatePod outside_ok pod_web system_example)) ! 1 =
      WriteFile ''/tmp/nodepeer/vk-startup-config.conf''
        (startupData provider_example (setMeshIdentity pod_web initialGlobals)) 420"
    by (simp add: v system_example_def)
  from t [THEN conjunct2, THEN conjunct1]
  have b: "linesOf (startupData provider_example (setMeshIdentity pod_web initialGlobals)) =
       [''add AutoConnect = yes'', ''add ConnectTo = nodemain'', ''add Device = /dev/net/tun'',
        ''add DeviceType = tap'', ''add Mode = switch'', ''add Name = nodepeer'',
        ''add nodemain.Address = 172.17.0.2'', ''add nodemain.Subnet = 10.1.1.0/24'',
        ''add nodemain.Port = 655'',
        ''add nodepeer.Address = 172.17.0.3'', ''add nodepeer.Subnet = 10.1.1.0/24'',
        ''add nodepeer.Port = 655'']"
    by (simp add: v system_example_def provider_example_def config_example_def initialGlobals_def
        Sprintf_d_def decimal.simps DefaultTincMainAddress_def DefaultTincPeerAddress_def)
  have ok: "WriteFile_err outside_ok (tincStartupConfigHost (setMeshIdentity pod_web (vars system_example))) = None
        \<and> WriteFile_err outside_ok (tincMainConfigHost (setMeshIdentity pod_web (vars system_example))) = None
        \<and> WriteFile_err outside_ok (tincUpScriptHost (setMeshIdentity pod_web (vars system_example))) = None
        \<and> snd (Command_result outside_ok (dockerRunArgs (setMeshIdentity pod_web (vars system_example)))) = None"
    by (simp add: outside_ok_def)
  from t [THEN conjunct2, THEN conjunct2, THEN conjunct2] ok
  have c: "fst (CreatePod outside_ok pod_web system_example) = None"
    by (rule mp)
  from a b c show ?thesis by simp
qed

subsection \<open>The post-up script\<close>

text \<open>
  C9: when \<^verbatim>\<open>CreatePod\<close> gets as far as the script (the directory and the two
  configuration files were written), the text that it writes to \<^verbatim>\<open>vk-tinc-up\<close>,
  with mode 0755, consists of exactly three lines in this order: the shebang line,
  the command that brings the device \<open>tap0\<close> up, and the command that assigns the
  private address of the selected role with a \<open>/24\<close> mask to \<open>tap0\<close>. For every
  mesh identity whose private address has no line feed, \<^verbatim>\<open>createStartupConfig\<close>
  writes these three lines for that address.
\<close>

theorem CreatePod_writes_upScript:
  assumes "Namespace pod \<noteq> []" and "PodName pod \<noteq> []"
    and "MkdirAll_err os (filepath_Join [''/tmp'', tincMainName (setMeshIdentity pod (vars s))]) = None"
    and "WriteFile_err os (tincStartupConfigHost (setMeshIdentity pod (vars s))) = None"
    and "WriteFile_err os (tincMainConfigHost (setMeshIdentity pod (vars s))) = None"
  shows "calls (snd (CreatePod os pod s)) ! (length (calls s) + 3) =
      WriteFile
        (if Annotations pod ''vpnmode'' = Some ''peer''
         then ''/tmp/nodepeer/vk-tinc-up'' else ''/tmp/nodemain/vk-tinc-up'')
        (upScriptData (setMeshIdentity pod (vars s))) 493
    \<and> linesOf (upScriptData (setMeshIdentity pod (vars s))) =
        [''#!/bin/bash'', ''ip link set tap0 up'',
         ''ip addr add ''
           @ (if Annotations pod ''vpnmode'' = Some ''peer'' then ''10.1.1.2'' else ''10.1.1.1'')
           @ ''/24 dev tap0'']
    \<and> (MkdirAll_err os (filepath_Join [''/tmp'', tincMainName (vars t)]) = None
        \<and> WriteFile_err os (tincStartupConfigHost (vars t)) = None
        \<and> WriteFile_err os (tincMainConfigHost (vars t)) = None
        \<and> CHR 0x0A \<notin> set (privateAddress (vars t)) \<longrightarrow>
        calls (snd (createStartupConfig os t)) ! (length (calls t) + 3) =
          WriteFile (tincUpScriptHost (vars t)) (upScriptData (vars t)) 493
        \<and> linesOf (upScriptData (vars t)) =
          [''#!/bin/bash'', ''ip link set tap0 up'',
           ''ip addr add '' @ privateAddress (vars t) @ ''/24 dev tap0''])"
proof (intro conjI impI)
  obtain rest where "calls (snd (CreatePod os pod s)) =
     calls s @
     [MkdirAll (filepath_Join [''/tmp'', tincMainName (setMeshIdentity pod (vars s))]) 509,
      WriteFile (tincStartupConfigHost (setMeshIdentity pod (vars s)))
        (startupData (prov s) (setMeshIdentity pod (vars s))) 420,
      WriteFile (tincMainConfigHost (setMeshIdentity pod (vars s)))
        (mainData (prov s) (setMeshIdentity pod (vars s))) 420,
      WriteFile (tincUpScriptHost (setMeshIdentity pod (vars s)))
        (upScriptData (setMeshIdentity pod (vars s))) 493] @ rest"
    using CreatePod_calls_all [OF assms] by blast
  then have "calls (snd (CreatePod os pod s)) ! (length (calls s) + 3) =
      WriteFile (tincUpScriptHost (setMeshIdentity pod (vars s)))
        (upScriptData (setMeshIdentity pod (vars s))) 493"
    by (simp add: nth_append)
  then show "calls (snd (CreatePod os pod s)) ! (length (calls s) + 3) =
      WriteFile
        (if Annotations pod ''vpnmode'' = Some ''peer''
         then ''/tmp/nodepeer/vk-tinc-up'' else ''/tmp/nodemain/vk-tinc-up'')
        (upScriptData (setMeshIdentity pod (vars s))) 493"
    by (simp add: setMeshIdentity_fields)
  have "CHR 0x0A \<notin> set (privateAddress (setMeshIdentity pod (vars s)))"
    by (simp add: setMeshIdentity_fields)
  from upScriptData_lines [OF this]
  show "linesOf (upScriptData (setMeshIdentity pod (vars s))) =
        [''#!/bin/bash'', ''ip link set tap0 up'',
         ''ip addr add ''
           @ (if Annotations pod ''vpnmode'' = Some ''peer'' then ''10.1.1.2'' else ''10.1.1.1'')
           @ ''/24 dev tap0'']"
    by (simp add: upScriptLines_def setMeshIdentity_fields)
next
  assume h: "MkdirAll_err os (filepath_Join [''/tmp'', tincMainName (vars t)]) = None
        \<and> WriteFile_err os (tincStartupConfigHost (vars t)) = None
        \<and> WriteFile_err os (tincMainConfigHost (vars t)) = None
        \<and> CHR 0x0A \<notin> set (privateAddress (vars t))"
  then have "calls (snd (createStartupConfig os t)) =
     calls t @ [MkdirAll (filepath_Join [''/tmp'', tincMainName (vars t)]) 509,
                WriteFile (tincStartupConfigHost (vars t)) (startupData (prov t) (vars t)) 420,
                WriteFile (tincMainConfigHost (vars t)) (mainData (prov t) (vars t)) 420,
                WriteFile (tincUpScriptHost (vars t)) (upScriptData (vars t)) 493]"
    by (intro createStartupConfig_calls_all) simp_all
  then show "calls (snd (createStartupConfig os t)) ! (length (calls t) + 3) =
          WriteFile (tincUpScriptHost (vars t)) (upScriptData (vars t)) 493"
    by (simp add: nth_append)
  from h have "CHR 0x0A \<notin> set (privateAddress (vars t))"
    by simp
  from upScriptData_lines [OF this]
  show "linesOf (upScriptData (vars t)) =
          [''#!/bin/bash'', ''ip link set tap0 up'',
           ''ip addr add '' @ privateAddress (vars t) @ ''/24 dev tap0'']"
    by (simp add: upScriptLines_def)
qed

theorem CreatePod_writes_upScript_witness:
  "calls (snd (CreatePod outside_ok pod_web system_example)) ! 3 =
      WriteFile ''/tmp/nodepeer/vk-tinc-up''
        ''#!/bin/bash\<newline>ip link set tap0 up\<newline>ip addr add 10.1.1.2/24 dev tap0\<newline>'' 493
   \<and> linesOf ''#!/bin/bash\<newline>ip link set tap0 up\<newline>ip addr add 10.1.1.2/24 dev tap0\<newline>'' =
       [''#!/bin/bash'', ''ip link set tap0 up'', ''ip addr add 10.1.1.2/24 dev tap0'']
   \<and> calls (snd (CreatePod outside_ok (podOf ''default'' ''db'') system_example)) ! 3 =
      WriteFile ''/tmp/nodemain/vk-tinc-up''
        ''#!/bin/bash\<newline>ip link set tap0 up\<newline>ip addr add 10.1.1.1/24 dev tap0\<newline>'' 493"
proof -
  have o: "MkdirAll_err outside_ok p = None" "WriteFile_err outside_ok p = None" for p
    by (simp_all add: outside_ok_def)
  have n: "Namespace pod_web \<noteq> []" "PodName pod_web \<noteq> []"
    by (simp_all add: pod_web_def)
  have v: "Annotations pod_web ''vpnmode'' = Some ''peer''"
    by (simp add: pod_web_def)
  have u: "upScriptData (setMeshIdentity pod g) =
      ''#!/bin/bash\<newline>ip link set tap0 up\<newline>ip addr add ''
        @ privateAddress (setMeshIdentity pod g) @ ''/24 dev tap0\<newline>''" for pod g
    by (simp add: upScriptData_def)
  note t = CreatePod_writes_upScript [OF n o(1) o(2) o(2), of system_example system_example]
  from t [THEN conjunct1]
  have a: "calls (snd (CreatePod outside_ok pod_web system_example)) ! 3 =
      WriteFile ''/tmp/nodepeer/vk-tinc-up''
        ''#!/bin/bash\<newline>ip link set tap0 up\<newline>ip addr add 10.1.1.2/24 dev tap0\<newline>'' 493"
    by (simp add: v u setMeshIdentity_fields system_example_def)
  from t [THEN conjunct2, THEN conjunct1]
  have b: "linesOf ''#!/bin/bash\<newline>ip link set tap0 up\<newline>ip addr add 10.1.1.2/24 dev tap0\<newline>'' =
       [''#!/bin/bash'', ''ip link set tap0 up'', ''ip addr add 10.1.1.2/24 dev tap0'']"
    by (simp add: v u setMeshIdentity_fields)
  have n': "Namespace (podOf ''default'' ''db'') \<noteq> []" "PodName (podOf ''default'' ''db'') \<noteq> []"
    by (simp_all add: podOf_def)
  have v': "Annotations (podOf ''default'' ''db'') ''vpnmode'' \<noteq> Some ''peer''"
    by (simp add: podOf_def)
  note t' = CreatePod_writes_upScript [OF n' o(1) o(2) o(2), of system_example system_example]
  from t' [THEN conjunct1]
  have c: "calls (snd (CreatePod outside_ok (podOf ''default'' ''db'') system_example)) ! 3 =
      WriteFile ''/tmp/nodemain/vk-tinc-up''
        ''#!/bin/bash\<newline>ip link set tap0 up\<newline>ip addr add 10.1.1.1/24 dev tap0\<newline>'' 493"
    by (simp add: v' u setMeshIdentity_fields system_example_def)
  from a b c show ?thesis by simp
qed

section \<open>The pod store\<close>

lemma createStartupConfig_keeps_provider:
  "prov (snd (createStartupConfig os s)) = prov s"
  by (simp add: createStartupConfig_def Let_def split: option.splits)

lemma CreatePod_stores_pod:
  assumes "buildKey pod = Inr key"
  shows "prov (snd (CreatePod os pod s)) = (prov s)\<lparr>pods := (pods (prov s))(key \<mapsto> pod)\<rparr>"
proof -
  let ?s = "s\<lparr>prov := (prov s)\<lparr>pods := (pods (prov s))(key \<mapsto> pod)\<rparr>,
               vars := setMeshIdentity pod (vars s)\<rparr>"
  obtain r t where c: "createStartupConfig os ?s = (r, t)"
    by (cases "createStartupConfig os ?s")
  then have "prov t = prov ?s"
    using createStartupConfig_keeps_provider [of os ?s] by simp
  then show ?thesis
    using assms c
    by (simp add: CreatePod_def Let_def split: option.splits prod.splits)
qed

lemma buildKey_empty_component:
  assumes "Namespace pod = [] \<or> PodName pod = []"
  shows "buildKey pod =
    Inl (if Namespace pod = [] then Errorf ''pod namespace not found''
         else Errorf ''pod name not found'')"
  using assms by (auto simp add: buildKey_def)

text \<open>
  C4: when \<^verbatim>\<open>CreatePod\<close> returns an error for a pod with a non-empty namespace and
  name (the directory, one of the three files or \<^verbatim>\<open>docker run\<close> failed), the pod
  is in the store under its key.
\<close>

theorem CreatePod_failure_keeps_record:
  assumes "Namespace pod \<noteq> []" and "PodName pod \<noteq> []"
    and "CreatePod os pod s = (Some err, s')"
  shows "pods (prov s') (Namespace pod @ ''-'' @ PodName pod) = Some pod"
proof -
  have k: "buildKey pod = Inr (Namespace pod @ ''-'' @ PodName pod)"
    using assms(1,2) by (simp add: buildKey_def buildKeyFromNames_def)
  have "prov s' = prov (snd (CreatePod os pod s))"
    using assms(3) by simp
  then show ?thesis
    by (simp add: CreatePod_stores_pod [OF k])
qed

theorem CreatePod_failure_keeps_record_witness:
  "fst (CreatePod outside_run_fails pod_web system_example) =
     Some (Errorf (''failed to run docker-run:\<newline>out: docker: Error response from daemon''
                   @ ''\<newline>err: exit status 125\<newline>''))
   \<and> pods (prov (snd (CreatePod outside_run_fails pod_web system_example))) ''default-web''
     = Some pod_web"
proof -
  have e: "fst (CreatePod outside_run_fails pod_web system_example) =
     Some (Errorf (''failed to run docker-run:\<newline>out: docker: Error response from daemon''
                   @ ''\<newline>err: exit status 125\<newline>''))"
    by (simp add: CreatePod_def createStartupConfig_def Let_def buildKey_def
        buildKeyFromNames_def pod_web_def outside_run_fails_def dockerRunArgs_def)
  then have c: "CreatePod outside_run_fails pod_web system_example =
     (Some (Errorf (''failed to run docker-run:\<newline>out: docker: Error response from daemon''
                   @ ''\<newline>err: exit status 125\<newline>'')),
      snd (CreatePod outside_run_fails pod_web system_example))"
    by (simp add: prod_eq_iff)
  have n: "Namespace pod_web \<noteq> []" "PodName pod_web \<noteq> []"
    by (simp_all add: pod_web_def)
  from CreatePod_failure_keeps_record [OF n c]
  have "pods (prov (snd (CreatePod outside_run_fails pod_web system_example))) ''default-web''
     = Some pod_web"
    by (simp add: pod_web_def)
  with e show ?thesis by (rule conjI)
qed

text \<open>
  C6: when the key of the pod is not in the store, \<^verbatim>\<open>DeletePod\<close> fails with the
  \<open>NotFound\<close> error and leaves the store, the package variables and the trace of
  outside calls as they were.
\<close>

theorem DeletePod_absent_NotFound:
  assumes "buildKey pod = Inr key" and "pods (prov s) key = None"
  shows "DeletePod os pod s = (Some (NotFound ''pod not found''), s)"
  using assms by (simp add: DeletePod_def)

theorem DeletePod_absent_NotFound_witness:
  "DeletePod outside_ok (podOf ''default'' ''ghost'') system_with_web
     = (Some (NotFound ''pod not found''), system_with_web)"
proof -
  have k: "buildKey (podOf ''default'' ''ghost'') = Inr ''default-ghost''"
    by (simp add: buildKey_def buildKeyFromNames_def podOf_def)
  have a: "pods (prov system_with_web) ''default-ghost'' = None"
    by (simp add: system_with_web_def)
  from DeletePod_absent_NotFound [OF k a] show ?thesis .
qed

text \<open>
  C7: for a pod with a non-empty namespace and name whose key holds a stored pod,
  \<^verbatim>\<open>UpdatePod\<close> succeeds, \<^verbatim>\<open>GetPod\<close> then returns the new pod itself, every other
  key holds what it held, and the configuration, the package variables and the
  trace of outside calls are unchanged.
\<close>

theorem UpdatePod_replaces_record:
  assumes "Namespace new \<noteq> []" and "PodName new \<noteq> []"
    and "pods (prov s) (Namespace new @ ''-'' @ PodName new) = Some old"
  shows "UpdatePod new s =
      (None, s\<lparr>prov := (prov s)\<lparr>pods := (pods (prov s))(Namespace new @ ''-'' @ PodName new \<mapsto> new)\<rparr>\<rparr>)
    \<and> GetPod (prov (snd (UpdatePod new s))) (Namespace new) (PodName new) = Inr new
    \<and> (\<forall>k. k \<noteq> Namespace new @ ''-'' @ PodName new \<longrightarrow>
          pods (prov (snd (UpdatePod new s))) k = pods (prov s) k)
    \<and> config (prov (snd (UpdatePod new s))) = config (prov s)
    \<and> vars (snd (UpdatePod new s)) = vars s
    \<and> calls (snd (UpdatePod new s)) = calls s"
proof -
  have k: "buildKey new = Inr (Namespace new @ ''-'' @ PodName new)"
    using assms(1,2) by (simp add: buildKey_def buildKeyFromNames_def)
  have u: "UpdatePod new s =
      (None, s\<lparr>prov := (prov s)\<lparr>pods := (pods (prov s))(Namespace new @ ''-'' @ PodName new \<mapsto> new)\<rparr>\<rparr>)"
    by (simp add: UpdatePod_def k)
  show ?thesis
    unfolding u by (simp add: GetPod_def buildKeyFromNames_def)
qed

theorem UpdatePod_replaces_record_witness:
  "fst (UpdatePod pod_web_new system_with_web) = None
   \<and> GetPod (prov (snd (UpdatePod pod_web_new system_with_web))) ''default'' ''web'' = Inr pod_web_new
   \<and> pods (prov (snd (UpdatePod pod_web_new system_with_web))) ''default-db''
       = Some (podOf ''default'' ''db'')
   \<and> calls (snd (UpdatePod pod_web_new system_with_web)) = []"
proof -
  have n: "Namespace pod_web_new \<noteq> []" "PodName pod_web_new \<noteq> []"
    by (simp_all add: pod_web_new_def)
  have o: "pods (prov system_with_web) (Namespace pod_web_new @ ''-'' @ PodName pod_web_new)
      = Some pod_web"
    by (simp add: system_with_web_def pod_web_new_def)
  note t = UpdatePod_replaces_record [OF n o]
  from t [THEN conjunct1] have a: "fst (UpdatePod pod_web_new system_with_web) = None"
    by simp
  from t [THEN conjunct2, THEN conjunct1]
  have b: "GetPod (prov (snd (UpdatePod pod_web_new system_with_web))) ''default'' ''web''
      = Inr pod_web_new"
    by (simp add: pod_web_new_def)
  from t [THEN conjunct2, THEN conjunct2, THEN conjunct1]
  have "''default-db'' \<noteq> Namespace pod_web_new @ ''-'' @ PodName pod_web_new \<longrightarrow>
      pods (prov (snd (UpdatePod pod_web_new system_with_web))) ''default-db''
        = pods (prov system_with_web) ''default-db''"
    by (rule spec)
  then have c: "pods (prov (snd (UpdatePod pod_web_new system_with_web))) ''default-db''
       = Some (podOf ''default'' ''db'')"
    by (simp add: pod_web_new_def system_with_web_def)
  from t [THEN conjunct2, THEN conjunct2, THEN conjunct2, THEN conjunct2, THEN conjunct2]
  have d: "calls (snd (UpdatePod pod_web_new system_with_web)) = []"
    by (simp add: system_with_web_def)
  from a b c d show ?thesis by simp
qed

text \<open>
  C8: for a pod whose namespace or name is empty, \<^verbatim>\<open>buildKey\<close> fails with one of
  its two errors, and \<^verbatim>\<open>CreatePod\<close>, \<^verbatim>\<open>UpdatePod\<close> and \<^verbatim>\<open>DeletePod\<close> return that
  error and the system as it was.
\<close>

theorem empty_component_rejected:
  assumes "Namespace pod = [] \<or> PodName pod = []"
  shows "\<exists>e. buildKey pod = Inl e \<and> InvalidKey e
      \<and> CreatePod os pod s = (Some e, s)
      \<and> UpdatePod pod s = (Some e, s)
      \<and> DeletePod os pod s = (Some e, s)"
proof -
  let ?e = "if Namespace pod = [] then Errorf ''pod namespace not found''
            else Errorf ''pod name not found''"
  have k: "buildKey pod = Inl ?e"
    using assms by (rule buildKey_empty_component)
  have "InvalidKey ?e"
    by (simp add: InvalidKey_def)
  moreover have "CreatePod os pod s = (Some ?e, s)"
    by (simp add: CreatePod_def k)
  moreover have "UpdatePod pod s = (Some ?e, s)"
    by (simp add: UpdatePod_def k)
  moreover have "DeletePod os pod s = (Some ?e, s)"
    by (simp add: DeletePod_def k)
  ultimately show ?thesis using k by blast
qed

theorem empty_component_rejected_witness:
  "\<exists>e. buildKey (podOf [] ''x'') = Inl e \<and> InvalidKey e
      \<and> CreatePod outside_ok (podOf [] ''x'') system_with_web = (Some e, system_with_web)
      \<and> UpdatePod (podOf [] ''x'') system_with_web = (Some e, system_with_web)
      \<and> DeletePod outside_ok (podOf [] ''x'') system_with_web = (Some e, system_with_web)"
proof -
  have "Namespace (podOf [] ''x'') = [] \<or> PodName (podOf [] ''x'') = []"
    by (simp add: podOf_def)
  from empty_component_rejected [OF this] show ?thesis .
qed

text \<open>
  C10: \<^verbatim>\<open>GetPod\<close> with an empty namespace or name does not fail with a key error:
  the key is built from the names without a check, and the call returns the pod
  stored under it or the \<open>NotFound\<close> error, whereas \<^verbatim>\<open>buildKey\<close> rejects a pod with
  these names.
\<close>

theorem GetPod_empty_component:
  assumes "namespace = [] \<or> name = []"
  shows "buildKeyFromNames namespace name = Inr (namespace @ ''-'' @ name)
    \<and> GetPod p namespace name =
        (case pods p (namespace @ ''-'' @ name) of
           Some pod \<Rightarrow> Inr pod
         | None \<Rightarrow> Inl (NotFound (''pod '' @ [CHR 0x22] @ namespace @ ''/'' @ name @ [CHR 0x22]
                                  @ '' is not known to the provider'')))
    \<and> (\<forall>e. GetPod p namespace name = Inl e \<longrightarrow> \<not> InvalidKey e)
    \<and> (\<forall>pod. Namespace pod = namespace \<and> PodName pod = name \<longrightarrow>
          (\<exists>e. buildKey pod = Inl e \<and> InvalidKey e))"
proof (intro conjI allI impI)
  show "buildKeyFromNames namespace name = Inr (namespace @ ''-'' @ name)"
    by (simp add: buildKeyFromNames_def)
  show "GetPod p namespace name =
        (case pods p (namespace @ ''-'' @ name) of
           Some pod \<Rightarrow> Inr pod
         | None \<Rightarrow> Inl (NotFound (''pod '' @ [CHR 0x22] @ namespace @ ''/'' @ name @ [CHR 0x22]
                                  @ '' is not known to the provider'')))"
    by (simp add: GetPod_def buildKeyFromNames_def)
  show "\<not> InvalidKey e" if "GetPod p namespace name = Inl e" for e
    using that
    by (auto simp add: GetPod_def buildKeyFromNames_def InvalidKey_def split: option.splits)
  show "\<exists>e. buildKey pod = Inl e \<and> InvalidKey e"
    if "Namespace pod = namespace \<and> PodName pod = name" for pod
  proof -
    have "Namespace pod = [] \<or> PodName pod = []"
      using assms that by auto
    then have "buildKey pod =
      Inl (if Namespace pod = [] then Errorf ''pod namespace not found''
           else Errorf ''pod name not found'')"
      by (rule buildKey_empty_component)
    then show ?thesis by (simp add: InvalidKey_def)
  qed
qed

theorem GetPod_empty_component_witness:
  "GetPod (prov system_with_web) [] ''web''
     = Inl (NotFound (''pod '' @ [CHR 0x22] @ ''/web'' @ [CHR 0x22] @ '' is not known to the provider''))
   \<and> (\<exists>e. buildKey (podOf [] ''web'') = Inl e \<and> InvalidKey e)"
proof -
  have h: "[] = ([]::string) \<or> ''web'' = []"
    by simp
  note t = GetPod_empty_component [OF h, of "prov system_with_web"]
  from t [THEN conjunct2, THEN conjunct1]
  have a: "GetPod (prov system_with_web) [] ''web''
     = Inl (NotFound (''pod '' @ [CHR 0x22] @ ''/web'' @ [CHR 0x22] @ '' is not known to the provider''))"
    by (simp add: system_with_web_def)
  from t [THEN conjunct2, THEN conjunct2, THEN conjunct2]
  have "Namespace (podOf [] ''web'') = [] \<and> PodName (podOf [] ''web'') = ''web'' \<longrightarrow>
          (\<exists>e. buildKey (podOf [] ''web'') = Inl e \<and> InvalidKey e)"
    by (rule spec)
  then have b: "\<exists>e. buildKey (podOf [] ''web'') = Inl e \<and> InvalidKey e"
    by (simp add: podOf_def)
  from a b show ?thesis by (rule conjI)
qed

end
